theory Spec2Isabelle
  imports Complex_Main
begin

section \<open>Python values and arithmetic\<close>

text \<open>
  The program is a Python desktop application. Its clock readings, capture intervals,
  confidences and probabilities are Python floats; they are modelled as exact reals, so
  every statement below is about the arithmetic the code writes down, without rounding.
  Each call of \<^verbatim>\<open>time.time()\<close> is an argument of the function that makes it.
\<close>

datatype error =
  TypeError | ValueError | ZeroDivisionError | IndexError | OverflowError | OSError | OtherException

text \<open>
  \<^verbatim>\<open>datetime.fromtimestamp\<close> belongs to the standard library. For a timestamp outside the
  range of the platform, which depends on its time zone, it raises \<^verbatim>\<open>OverflowError\<close>,
  \<^verbatim>\<open>ValueError\<close> or \<^verbatim>\<open>OSError\<close>. It is a parameter of the model: the exception it
  raises for a timestamp, or \<^verbatim>\<open>None\<close> where it returns. A reading of the clock is a
  timestamp for which it returns.
\<close>

type_synonym fromtimestamp = "real \<Rightarrow> error option"

text \<open>
  Float floor division \<^verbatim>\<open>x // y\<close> and float modulo \<^verbatim>\<open>x % y\<close>: both raise
  \<^verbatim>\<open>ZeroDivisionError\<close> for a zero divisor; the remainder has the sign of the divisor.
\<close>

definition py_floordiv :: "real \<Rightarrow> real \<Rightarrow> error + real" where
  "py_floordiv x y = (if y = 0 then Inl ZeroDivisionError else Inr (of_int \<lfloor>x / y\<rfloor>))"

definition py_mod :: "real \<Rightarrow> real \<Rightarrow> error + real" where
  "py_mod x y = (if y = 0 then Inl ZeroDivisionError else Inr (x - of_int \<lfloor>x / y\<rfloor> * y))"

text \<open>\<^verbatim>\<open>int(x)\<close> on a float truncates towards zero.\<close>

definition py_int :: "real \<Rightarrow> int" where
  "py_int x = (if 0 \<le> x then \<lfloor>x\<rfloor> else \<lceil>x\<rceil>)"

section \<open>Configuration (src/config.py)\<close>

definition DEFAULT_CAPTURE_INTERVAL :: real where
  "DEFAULT_CAPTURE_INTERVAL = 5.0"

definition MIN_CAPTURE_INTERVAL :: real where
  "MIN_CAPTURE_INTERVAL = 0.1"

definition MAX_CAPTURE_INTERVAL :: real where
  "MAX_CAPTURE_INTERVAL = 60.0"

definition DEFAULT_CONFIDENCE_THRESHOLD :: real where
  "DEFAULT_CONFIDENCE_THRESHOLD = 0.5"

definition MAX_EMOTION_HISTORY :: nat where
  "MAX_EMOTION_HISTORY = 1000"

text \<open>\<^verbatim>\<open>str(n)\<close> for a non-negative integer, as the f-strings below use it.\<close>

fun str_nat :: "nat \<Rightarrow> string" where
  "str_nat n =
     (if n < 10 then [''0123456789'' ! n]
      else str_nat (n div 10) @ [''0123456789'' ! (n mod 10)])"

declare str_nat.simps [simp del]

text \<open>
  A \<^verbatim>\<open>defaultdict\<close> keeps its keys in insertion order, and \<^verbatim>\<open>d[k] += v\<close> on a
  missing key first inserts the default at the end. It is an association list here.
\<close>

fun dd_update :: "'k \<Rightarrow> ('v \<Rightarrow> 'v) \<Rightarrow> 'v \<Rightarrow> ('k \<times> 'v) list \<Rightarrow> ('k \<times> 'v) list" where
  "dd_update k f d [] = [(k, f d)]"
| "dd_update k f d ((k', v) # kvs) =
     (if k' = k then (k', f v) # kvs else (k', v) # dd_update k f d kvs)"

fun dd_get :: "'k \<Rightarrow> 'v \<Rightarrow> ('k \<times> 'v) list \<Rightarrow> 'v" where
  "dd_get k d [] = d"
| "dd_get k d ((k', v) # kvs) = (if k' = k then v else dd_get k d kvs)"

text \<open>
  \<^verbatim>\<open>max(items, key=...)\<close> scans from the left and replaces the candidate only by a
  strictly greater one, so the first maximal item wins.
\<close>

fun py_max_by :: "('a \<Rightarrow> 'b::linorder) \<Rightarrow> 'a \<Rightarrow> 'a list \<Rightarrow> 'a" where
  "py_max_by key best [] = best"
| "py_max_by key best (x # xs) = py_max_by key (if key best < key x then x else best) xs"

text \<open>\<^verbatim>\<open>deque(maxlen=n).append(x)\<close>: a full deque drops its leftmost element.\<close>

definition deque_append :: "nat \<Rightarrow> 'a \<Rightarrow> 'a list \<Rightarrow> 'a list" where
  "deque_append n x xs =
     (if n = 0 then xs else if length xs < n then xs @ [x] else tl xs @ [x])"

section \<open>Session data (src/core/session_manager.py)\<close>

text \<open>
  An \<^verbatim>\<open>EmotionDetection\<close>. Its \<^verbatim>\<open>datetime\<close> attribute is the calendar form of
  \<open>timestamp\<close> and carries no further information, so it is not a field; the constructor
  computes it with \<^verbatim>\<open>datetime.fromtimestamp\<close> and raises what that call raises.
  \<^verbatim>\<open>timestamp or time.time()\<close> takes the clock both for \<^verbatim>\<open>None\<close> and for \<open>0.0\<close>.
\<close>

record EmotionDetection =
  emotion :: string
  confidence :: real
  timestamp :: real

definition new_detection ::
  "fromtimestamp \<Rightarrow> string \<Rightarrow> real \<Rightarrow> real option \<Rightarrow> real \<Rightarrow> error + EmotionDetection" where
  "new_detection fromts e c ts now =
     (case ts of
        None \<Rightarrow> Inr \<lparr>emotion = e, confidence = c, timestamp = now\<rparr>
      | Some t \<Rightarrow>
          if t = 0 then Inr \<lparr>emotion = e, confidence = c, timestamp = now\<rparr>
          else (case fromts t of
                  Some err \<Rightarrow> Inl err
                | None \<Rightarrow> Inr \<lparr>emotion = e, confidence = c, timestamp = t\<rparr>))"

record SessionStatistics =
  total_detections :: nat
  emotion_counts :: "(string \<times> nat) list"
  confidence_sum :: "(string \<times> real) list"
  start_time :: "real option"
  end_time :: "real option"
  duration :: real
  detections_history :: "EmotionDetection list"
  detections_per_minute :: "(int \<times> nat) list"
  peak_emotion_times :: "(string \<times> real list) list"

definition new_statistics :: SessionStatistics where
  "new_statistics =
     \<lparr>total_detections = 0, emotion_counts = [], confidence_sum = [],
      start_time = None, end_time = None, duration = 0,
      detections_history = [], detections_per_minute = [], peak_emotion_times = []\<rparr>"

text \<open>\<^verbatim>\<open>SessionStatistics.add_detection\<close>.\<close>

definition stats_add_detection :: "EmotionDetection \<Rightarrow> SessionStatistics \<Rightarrow> SessionStatistics" where
  "stats_add_detection d s =
     s\<lparr>total_detections := total_detections s + 1,
       emotion_counts := dd_update (emotion d) (\<lambda>n. n + 1) 0 (emotion_counts s),
       confidence_sum := dd_update (emotion d) (\<lambda>x. x + confidence d) 0 (confidence_sum s),
       detections_history := deque_append MAX_EMOTION_HISTORY d (detections_history s),
       detections_per_minute :=
         dd_update (py_int (of_int \<lfloor>timestamp d / 60\<rfloor>)) (\<lambda>n. n + 1) 0 (detections_per_minute s),
       peak_emotion_times :=
         (if 0.8 < confidence d
          then dd_update (emotion d) (\<lambda>ts. ts @ [timestamp d]) [] (peak_emotion_times s)
          else peak_emotion_times s)\<rparr>"

definition get_dominant_emotion :: "SessionStatistics \<Rightarrow> (string \<times> nat \<times> real) option" where
  "get_dominant_emotion s =
     (case emotion_counts s of
        [] \<Rightarrow> None
      | item # items \<Rightarrow>
          (let (e, count) = py_max_by snd item items;
               avg_confidence =
                 (if 0 < count then dd_get e 0 (confidence_sum s) / real count else 0)
           in Some (e, count, avg_confidence)))"

definition get_emotion_distribution :: "SessionStatistics \<Rightarrow> (string \<times> real) list" where
  "get_emotion_distribution s =
     (if total_detections s = 0 then []
      else map (\<lambda>(e, count). (e, real count / real (total_detections s) * 100))
             (emotion_counts s))"

definition get_average_confidences :: "SessionStatistics \<Rightarrow> (string \<times> real) list" where
  "get_average_confidences s =
     map (\<lambda>(e, count). (e, dd_get e 0 (confidence_sum s) / real count))
       (filter (\<lambda>(e, count). 0 < count) (emotion_counts s))"

definition get_detection_rate :: "SessionStatistics \<Rightarrow> real" where
  "get_detection_rate s =
     (if duration s = 0 then 0 else real (total_detections s) / (duration s / 60))"

text \<open>The dictionary that \<^verbatim>\<open>SessionStatistics.to_dict\<close> returns, key by key.\<close>

record session_stats =
  st_total_detections :: nat
  st_emotion_counts :: "(string \<times> nat) list"
  st_confidence_sum :: "(string \<times> real) list"
  st_start_time :: "real option"
  st_end_time :: "real option"
  st_duration :: real
  st_detections_history :: "EmotionDetection list"
  st_dominant_emotion :: "(string \<times> nat \<times> real) option"
  st_emotion_distribution :: "(string \<times> real) list"
  st_average_confidences :: "(string \<times> real) list"
  st_detection_rate :: real

definition to_dict :: "SessionStatistics \<Rightarrow> session_stats" where
  "to_dict s =
     \<lparr>st_total_detections = total_detections s,
      st_emotion_counts = emotion_counts s,
      st_confidence_sum = confidence_sum s,
      st_start_time = start_time s,
      st_end_time = end_time s,
      st_duration = duration s,
      st_detections_history = detections_history s,
      st_dominant_emotion = get_dominant_emotion s,
      st_emotion_distribution = get_emotion_distribution s,
      st_average_confidences = get_average_confidences s,
      st_detection_rate = get_detection_rate s\<rparr>"

section \<open>The session manager (src/core/session_manager.py)\<close>

text \<open>
  The \<^verbatim>\<open>session_data\<close> dictionary that \<^verbatim>\<open>_save_session_report\<close> hands to the report
  generator. The two \<^verbatim>\<open>datetime.fromtimestamp\<close> values are kept as their timestamps.
\<close>

record session_data =
  sd_session_id :: "string option"
  sd_start_time :: real
  sd_end_time :: real
  sd_duration :: real
  sd_total_detections :: nat
  sd_emotion_counts :: "(string \<times> nat) list"
  sd_emotion_distribution :: "(string \<times> real) list"
  sd_average_confidences :: "(string \<times> real) list"
  sd_detection_rate :: real
  sd_dominant_emotion :: "(string \<times> nat \<times> real) option"

text \<open>
  What the manager does besides changing its own fields: console lines, the call of the
  report generator and the call of the detection callback, in the order they happen.
\<close>

datatype event =
    Print_session_started string
  | Print_session_ended "string option"
  | Print_duration real
  | Print_detections nat
  | Print_dominant "(string \<times> nat \<times> real) option"
  | Save_session_report session_data string
  | Print_report_saved string
  | Print_report_error error
  | Detection_callback EmotionDetection
  | Print_detection_added string real
  | Print_timer_started real
  | Print_timer_stopped

text \<open>
  The report generator is an external collaborator: given the keyword arguments
  \<^verbatim>\<open>session_data\<close> and \<^verbatim>\<open>output_path\<close> it either returns or raises.
\<close>

type_synonym report_generator = "session_data \<Rightarrow> string \<Rightarrow> error + unit"

text \<open>
  Python binds the keyword arguments of a call to the parameters of the function before
  the body runs. For a function whose parameters all lack a default, as those of
  \<^verbatim>\<open>save_session_report\<close> do, a keyword that names no parameter raises \<^verbatim>\<open>TypeError\<close>,
  and so does a parameter that gets no argument.
\<close>

definition bind_keywords :: "string list \<Rightarrow> string list \<Rightarrow> error option" where
  "bind_keywords parameters keywords =
     (if list_ex (\<lambda>k. k \<notin> set parameters) keywords then Some TypeError
      else if list_ex (\<lambda>p. p \<notin> set keywords) parameters then Some TypeError
      else None)"

text \<open>The parameters of \<^verbatim>\<open>save_session_report\<close> in utils/pdf_report.py.\<close>

definition pdf_report_parameters :: "string list" where
  "pdf_report_parameters =
     [''pdf_path'', ''session_records'', ''model_name'', ''capture_interval'', ''total_duration'']"

text \<open>
  The repository's report generator as \<^verbatim>\<open>SessionManager._save_session_report\<close> calls it,
  with the keywords \<^verbatim>\<open>session_data\<close>, \<^verbatim>\<open>output_path\<close> and \<^verbatim>\<open>include_charts\<close>; \<open>body\<close> is
  what the function would do once its arguments are bound.
\<close>

definition pdf_report_called_by_manager :: "report_generator \<Rightarrow> report_generator" where
  "pdf_report_called_by_manager body data path =
     (case bind_keywords pdf_report_parameters
             [''session_data'', ''output_path'', ''include_charts''] of
        Some err \<Rightarrow> Inl err
      | None \<Rightarrow> body data path)"

record SessionManager =
  current_session :: "SessionStatistics option"
  session_active :: bool
  session_id :: "string option"
  results_dir :: string
  capture_timer_enabled :: bool
  capture_timer_start :: "real option"
  capture_interval :: real
  next_capture_time :: "real option"
  detection_callback :: bool
  timer_callback :: bool

text \<open>\<^verbatim>\<open>SessionManager.__init__\<close>; the two callbacks are recorded as set or unset.\<close>

definition init_manager :: "string \<Rightarrow> SessionManager" where
  "init_manager dir =
     \<lparr>current_session = None, session_active = False, session_id = None,
      results_dir = dir,
      capture_timer_enabled = False, capture_timer_start = None,
      capture_interval = DEFAULT_CAPTURE_INTERVAL, next_capture_time = None,
      detection_callback = False, timer_callback = False\<rparr>"

text \<open>
  \<^verbatim>\<open>datetime.now().strftime("sesion_%Y%m%d_%H%M%S")\<close>, from the calendar reading of the
  clock.
\<close>

record datetime =
  year :: nat
  month :: nat
  day :: nat
  hour :: nat
  minute :: nat
  second :: nat

definition zero_pad :: "nat \<Rightarrow> nat \<Rightarrow> string" where
  "zero_pad w n = replicate (w - length (str_nat n)) (CHR ''0'') @ str_nat n"

definition strftime_session :: "datetime \<Rightarrow> string" where
  "strftime_session dt =
     ''sesion_'' @ zero_pad 4 (year dt) @ zero_pad 2 (month dt) @ zero_pad 2 (day dt) @ ''_''
       @ zero_pad 2 (hour dt) @ zero_pad 2 (minute dt) @ zero_pad 2 (second dt)"

text \<open>
  \<^verbatim>\<open>_save_session_report\<close>: builds the report input and the file path, calls the
  generator, prints the path. An exception leaves the function at the place it is raised;
  the events up to there have happened.
\<close>

definition save_session_report_of ::
  "report_generator \<Rightarrow> SessionManager \<Rightarrow> session_stats \<Rightarrow> event list \<times> error option" where
  "save_session_report_of gen m stats =
     (case (st_start_time stats, st_end_time stats) of
        (Some t0, Some t1) \<Rightarrow>
          (let data =
                 \<lparr>sd_session_id = session_id m,
                  sd_start_time = t0,
                  sd_end_time = t1,
                  sd_duration = st_duration stats,
                  sd_total_detections = st_total_detections stats,
                  sd_emotion_counts = st_emotion_counts stats,
                  sd_emotion_distribution = st_emotion_distribution stats,
                  sd_average_confidences = st_average_confidences stats,
                  sd_detection_rate = st_detection_rate stats,
                  sd_dominant_emotion = st_dominant_emotion stats\<rparr>;
               filename = (case session_id m of None \<Rightarrow> ''None'' | Some sid \<Rightarrow> sid) @ ''.pdf'';
               filepath = results_dir m @ ''/'' @ filename
           in case gen data filepath of
                Inl e \<Rightarrow> ([Save_session_report data filepath], Some e)
              | Inr _ \<Rightarrow> ([Save_session_report data filepath, Print_report_saved filepath], None))
      | _ \<Rightarrow> ([], Some TypeError))"

text \<open>
  \<^verbatim>\<open>end_session(save_report)\<close> at clock reading \<open>now\<close>. The result is the new manager,
  the returned dictionary (\<^verbatim>\<open>None\<close> without an active session) and the events. The
  subtraction raises \<^verbatim>\<open>TypeError\<close> when the session has no start time; every exception
  of the report step is caught and printed.
\<close>

definition end_session ::
  "report_generator \<Rightarrow> bool \<Rightarrow> real \<Rightarrow> SessionManager
     \<Rightarrow> error + (SessionManager \<times> session_stats option \<times> event list)" where
  "end_session gen save_report now m =
     (if \<not> session_active m then Inr (m, None, [])
      else case current_session m of
        None \<Rightarrow> Inr (m, None, [])
      | Some s \<Rightarrow>
          (case start_time s of
             None \<Rightarrow> Inl TypeError
           | Some t0 \<Rightarrow>
               (let s' = s\<lparr>end_time := Some now, duration := now - t0\<rparr>;
                    m' = m\<lparr>current_session := Some s', session_active := False,
                           capture_timer_enabled := False\<rparr>;
                    stats = to_dict s';
                    printed =
                      [Print_session_ended (session_id m'), Print_duration (st_duration stats),
                       Print_detections (st_total_detections stats),
                       Print_dominant (st_dominant_emotion stats)];
                    report =
                      (if save_report \<and> 0 < st_total_detections stats
                       then (case save_session_report_of gen m' stats of
                               (evs, None) \<Rightarrow> evs
                             | (evs, Some e) \<Rightarrow> evs @ [Print_report_error e])
                       else [])
                in Inr (m'\<lparr>current_session := None, session_id := None\<rparr>,
                        Some stats, printed @ report))))"

text \<open>
  \<^verbatim>\<open>start_session()\<close>. Its clock readings, in the order the code takes them: \<open>t_end\<close>
  inside \<^verbatim>\<open>end_session\<close> (only with a session active), \<open>dt\<close> for the identifier,
  \<open>t_start\<close> for the session and \<open>t_timer\<close> for the capture timer. The dictionary that
  \<^verbatim>\<open>end_session\<close> returns is dropped.
\<close>

definition start_session ::
  "report_generator \<Rightarrow> real \<Rightarrow> datetime \<Rightarrow> real \<Rightarrow> real \<Rightarrow> SessionManager
     \<Rightarrow> error + (SessionManager \<times> string \<times> event list)" where
  "start_session gen t_end dt t_start t_timer m =
     (case (if session_active m then end_session gen True t_end m else Inr (m, None, [])) of
        Inl e \<Rightarrow> Inl e
      | Inr (m', _, evs) \<Rightarrow>
          (let sid = strftime_session dt;
               m'' = m'\<lparr>session_id := Some sid,
                        current_session := Some (new_statistics\<lparr>start_time := Some t_start\<rparr>),
                        session_active := True,
                        capture_timer_start := Some t_timer,
                        next_capture_time := Some (t_timer + capture_interval m')\<rparr>
           in Inr (m'', sid, evs @ [Print_session_started sid])))"

text \<open>
  \<^verbatim>\<open>SessionManager.add_detection(emotion, confidence, timestamp)\<close>. An exception of the
  \<^verbatim>\<open>EmotionDetection\<close> constructor leaves the method before anything is recorded.
\<close>

definition add_detection ::
  "fromtimestamp \<Rightarrow> string \<Rightarrow> real \<Rightarrow> real option \<Rightarrow> real \<Rightarrow> SessionManager
     \<Rightarrow> error + (SessionManager \<times> event list)" where
  "add_detection fromts e c ts now m =
     (if \<not> session_active m then Inr (m, [])
      else case current_session m of
        None \<Rightarrow> Inr (m, [])
      | Some s \<Rightarrow>
          (case new_detection fromts e c ts now of
             Inl err \<Rightarrow> Inl err
           | Inr d \<Rightarrow>
               Inr (m\<lparr>current_session := Some (stats_add_detection d s)\<rparr>,
                    (if detection_callback m then [Detection_callback d] else [])
                      @ [Print_detection_added e c])))"

text \<open>\<^verbatim>\<open>get_current_stats()\<close>: refreshes the duration of the running session.\<close>

definition get_current_stats ::
  "real \<Rightarrow> SessionManager \<Rightarrow> error + (SessionManager \<times> session_stats option)" where
  "get_current_stats now m =
     (if \<not> session_active m then Inr (m, None)
      else case current_session m of
        None \<Rightarrow> Inr (m, None)
      | Some s \<Rightarrow>
          (case start_time s of
             None \<Rightarrow> Inl TypeError
           | Some t0 \<Rightarrow>
               (let s' = s\<lparr>duration := now - t0\<rparr>
                in Inr (m\<lparr>current_session := Some s'\<rparr>, Some (to_dict s')))))"

subsection \<open>The capture timer\<close>

definition start_capture_timer ::
  "real option \<Rightarrow> real \<Rightarrow> SessionManager \<Rightarrow> SessionManager \<times> event list" where
  "start_capture_timer interval now m =
     (let m' = (case interval of
                  None \<Rightarrow> m
                | Some i \<Rightarrow> m\<lparr>capture_interval := max 0.1 i\<rparr>);
          m'' = m'\<lparr>capture_timer_enabled := True,
                   capture_timer_start := Some now,
                   next_capture_time := Some (now + capture_interval m')\<rparr>
      in (m'', [Print_timer_started (capture_interval m'')]))"

definition stop_capture_timer :: "SessionManager \<Rightarrow> SessionManager \<times> event list" where
  "stop_capture_timer m = (m\<lparr>capture_timer_enabled := False\<rparr>, [Print_timer_stopped])"

text \<open>
  The dictionary of \<^verbatim>\<open>get_timer_status()\<close>; the key \<^verbatim>\<open>cycle_count\<close> is present only
  for an enabled timer.
\<close>

record timer_status =
  ts_enabled :: bool
  ts_time_remaining :: real
  ts_next_capture :: "real option"
  ts_interval :: real
  ts_cycle_count :: "int option"

definition get_timer_status :: "real \<Rightarrow> SessionManager \<Rightarrow> error + timer_status" where
  "get_timer_status now m =
     (if \<not> capture_timer_enabled m
      then Inr \<lparr>ts_enabled = False, ts_time_remaining = 0, ts_next_capture = None,
                ts_interval = capture_interval m, ts_cycle_count = None\<rparr>
      else case capture_timer_start m of
        None \<Rightarrow> Inl TypeError
      | Some t0 \<Rightarrow>
          (let elapsed = now - t0
           in case py_mod elapsed (capture_interval m) of
                Inl e \<Rightarrow> Inl e
              | Inr time_in_cycle \<Rightarrow>
                  (let time_remaining = capture_interval m - time_in_cycle
                   in case py_floordiv elapsed (capture_interval m) of
                        Inl e \<Rightarrow> Inl e
                      | Inr q \<Rightarrow>
                          Inr \<lparr>ts_enabled = True, ts_time_remaining = time_remaining,
                               ts_next_capture = Some (now + time_remaining),
                               ts_interval = capture_interval m,
                               ts_cycle_count = Some (py_int q)\<rparr>)))"

definition is_capture_time :: "real \<Rightarrow> SessionManager \<Rightarrow> error + bool" where
  "is_capture_time now m =
     (if \<not> capture_timer_enabled m then Inr False
      else case get_timer_status now m of
        Inl e \<Rightarrow> Inl e
      | Inr timer_status \<Rightarrow> Inr (ts_time_remaining timer_status \<le> 0.1))"

definition set_capture_interval :: "real \<Rightarrow> SessionManager \<Rightarrow> SessionManager" where
  "set_capture_interval interval m =
     m\<lparr>capture_interval := max MIN_CAPTURE_INTERVAL (min MAX_CAPTURE_INTERVAL interval)\<rparr>"

definition set_detection_callback :: "SessionManager \<Rightarrow> SessionManager" where
  "set_detection_callback m = m\<lparr>detection_callback := True\<rparr>"

definition set_timer_callback :: "SessionManager \<Rightarrow> SessionManager" where
  "set_timer_callback m = m\<lparr>timer_callback := True\<rparr>"

section \<open>Label sets and label selection\<close>

text \<open>\<^verbatim>\<open>get_label_set_for_classes\<close> of utils/model_utils.py.\<close>

definition fer5 :: "string list" where
  "fer5 = [''enfado'', ''asco'', ''miedo'', ''feliz'', ''triste'']"

definition get_label_set_for_classes :: "int \<Rightarrow> string list" where
  "get_label_set_for_classes num_classes =
     (if num_classes = 5 then fer5
      else if num_classes = 6 then fer5 @ [''neutral'']
      else if num_classes = 7 then fer5 @ [''neutral'', ''sorpresa'']
      else if num_classes = 8 then fer5 @ [''neutral'', ''sorpresa'', ''otro'']
      else map (\<lambda>i. ''clase_'' @ str_nat i) [0..<nat num_classes])"

text \<open>\<^verbatim>\<open>EmotionConfig.get_labels_for_classes\<close> of src/config.py.\<close>

definition EMOTION_LABELS_5 :: "string list" where
  "EMOTION_LABELS_5 = [''Enojado'', ''Asco'', ''Feliz'', ''Miedo'', ''Triste'']"

definition EMOTION_LABELS_6 :: "string list" where
  "EMOTION_LABELS_6 = [''Enojado'', ''Asco'', ''Feliz'', ''Miedo'', ''Triste'', ''Neutral'']"

definition EMOTION_LABELS_7 :: "string list" where
  "EMOTION_LABELS_7 =
     [''Enojado'', ''Asco'', ''Feliz'', ''Miedo'', ''Triste'', ''Neutral'', ''Sorpresa'']"

definition EMOTION_LABELS_8 :: "string list" where
  "EMOTION_LABELS_8 =
     [''Enojado'', ''Asco'', ''Feliz'', ''Miedo'', ''Triste'', ''Neutral'', ''Sorpresa'', ''Otro'']"

definition get_labels_for_classes :: "int \<Rightarrow> string list" where
  "get_labels_for_classes num_classes =
     (if num_classes = 5 then EMOTION_LABELS_5
      else if num_classes = 6 then EMOTION_LABELS_6
      else if num_classes = 7 then EMOTION_LABELS_7
      else if num_classes = 8 then EMOTION_LABELS_8
      else map (\<lambda>i. ''Clase_'' @ str_nat i) [0..<nat num_classes])"

text \<open>
  \<^verbatim>\<open>np.argmax\<close> on a vector: a scan from the left that moves to a later position only
  for a strictly greater value; it raises \<^verbatim>\<open>ValueError\<close> on an empty vector.
\<close>

fun argmax_scan :: "nat \<Rightarrow> real \<Rightarrow> nat \<Rightarrow> real list \<Rightarrow> nat" where
  "argmax_scan best_i best_v i [] = best_i"
| "argmax_scan best_i best_v i (y # ys) =
     (if best_v < y then argmax_scan i y (Suc i) ys else argmax_scan best_i best_v (Suc i) ys)"

definition np_argmax :: "real list \<Rightarrow> error + nat" where
  "np_argmax xs = (case xs of [] \<Rightarrow> Inl ValueError | x # rest \<Rightarrow> Inr (argmax_scan 0 x 1 rest))"

text \<open>
  A camera frame, as far as the program can tell frames apart: what each opaque
  collaborator (face detector, face cropper, image preparation, the loaded network, the
  JPEG encoder) produces for it.
\<close>

record frame =
  detected_faces :: nat
  face_region_found :: bool
  image_prepared :: bool
  model_output :: "error + real list"
  jpeg_bytes :: "nat list"

text \<open>
  \<^verbatim>\<open>predict_emotion\<close> of utils/model_utils.py, on the probability vector the network
  returns: \<open>(label_idx, confidence, prob_vec)\<close>.
\<close>

definition predict_emotion :: "error + real list \<Rightarrow> error + (nat \<times> real \<times> real list)" where
  "predict_emotion preds =
     (case preds of
        Inl e \<Rightarrow> Inl e
      | Inr prob \<Rightarrow>
          (case np_argmax prob of
             Inl e \<Rightarrow> Inl e
           | Inr idx \<Rightarrow> Inr (idx, prob ! idx, prob)))"

text \<open>The label lookup of \<^verbatim>\<open>EmotionApp._run_detection\<close> (app_original.py).\<close>

definition resolve_label :: "string list option \<Rightarrow> nat \<Rightarrow> real list \<Rightarrow> string" where
  "resolve_label model_labels label_idx prob_vec =
     (case model_labels of
        Some ls \<Rightarrow>
          (if ls \<noteq> [] \<and> label_idx < length ls then ls ! label_idx
           else (let labels = get_label_set_for_classes (int (length prob_vec))
                 in if label_idx < length labels then labels ! label_idx
                    else ''Clase '' @ str_nat label_idx))
      | None \<Rightarrow>
          (let labels = get_label_set_for_classes (int (length prob_vec))
           in if label_idx < length labels then labels ! label_idx
              else ''Clase '' @ str_nat label_idx))"

section \<open>The emotion model (src/core/emotion_detector.py)\<close>

record EmotionModel =
  model_present :: bool
  is_loaded :: bool
  num_classes :: "int option"
  emotion_labels :: "string list option"
  confidence_threshold :: real
  total_predictions :: nat
  successful_predictions :: nat

definition init_model :: EmotionModel where
  "init_model =
     \<lparr>model_present = False, is_loaded = False, num_classes = None, emotion_labels = None,
      confidence_threshold = DEFAULT_CONFIDENCE_THRESHOLD,
      total_predictions = 0, successful_predictions = 0\<rparr>"

text \<open>The part of \<^verbatim>\<open>load_model\<close> that follows a successful load of a network with \<open>n\<close> outputs.\<close>

definition model_loaded_with :: "int \<Rightarrow> EmotionModel \<Rightarrow> EmotionModel" where
  "model_loaded_with n em =
     em\<lparr>model_present := True, is_loaded := True, num_classes := Some n,
        emotion_labels := Some (get_labels_for_classes n)\<rparr>"

definition set_confidence_threshold :: "real \<Rightarrow> EmotionModel \<Rightarrow> EmotionModel" where
  "set_confidence_threshold threshold em =
     em\<lparr>confidence_threshold := max 0.0 (min 1.0 threshold)\<rparr>"

record prediction =
  pr_emotion :: string
  pr_confidence :: real
  pr_class_index :: nat
  pr_probabilities :: "(string \<times> real) list"
  pr_timestamp :: real

text \<open>
  \<^verbatim>\<open>_process_predictions\<close>. The whole body is inside \<^verbatim>\<open>try\<close>: the \<^verbatim>\<open>ValueError\<close> of
  \<^verbatim>\<open>argmax\<close> on an empty vector, the \<^verbatim>\<open>TypeError\<close> of \<^verbatim>\<open>len(None)\<close> and the
  \<^verbatim>\<open>IndexError\<close> of a label list longer than the vector all end in \<^verbatim>\<open>None\<close>.
\<close>

definition process_predictions :: "real list \<Rightarrow> real \<Rightarrow> EmotionModel \<Rightarrow> prediction option" where
  "process_predictions predictions now em =
     (case np_argmax predictions of
        Inl _ \<Rightarrow> None
      | Inr predicted_class \<Rightarrow>
          (let conf = predictions ! predicted_class
           in if conf < confidence_threshold em then None
              else case emotion_labels em of
                None \<Rightarrow> None
              | Some labels \<Rightarrow>
                  if length predictions < length labels then None
                  else Some
                    \<lparr>pr_emotion =
                       (if labels \<noteq> [] \<and> predicted_class < length labels
                        then labels ! predicted_class
                        else ''Clase_'' @ str_nat predicted_class),
                     pr_confidence = conf,
                     pr_class_index = predicted_class,
                     pr_probabilities =
                       fold (\<lambda>(l, p). dd_update l (\<lambda>_. p) p) (zip labels predictions) [],
                     pr_timestamp = now\<rparr>))"


section \<open>The modular interface (src/ui/interface.py)\<close>





section \<open>The original application (app_original.py)\<close>

text \<open>One entry of \<^verbatim>\<open>session_records\<close>.\<close>

record detection_record =
  rec_timestamp :: string
  rec_emotion :: string
  rec_confidence :: real
  rec_img_data :: "nat list"
  rec_model :: string

text \<open>
  The dialogs, status lines, thread starts and report calls of the application. The
  report generator of utils/pdf_report.py takes the path, the records, the model name,
  the capture interval and the total duration.
\<close>

datatype app_event =
    Warning_model_required
  | Error_model_load error
  | Error_camera
  | Status_camera_read_error
  | Thread_started frame
  | Status_prediction_error error
  | Info_camera_inactive
  | Info_empty_session
  | Save_report string "detection_record list" string real real
  | Info_saved string nat real
  | Error_saving error

type_synonym app_report_generator =
  "string \<Rightarrow> detection_record list \<Rightarrow> string \<Rightarrow> real \<Rightarrow> real \<Rightarrow> error + unit"

text \<open>
  The fields of \<^verbatim>\<open>EmotionApp\<close> that the session logic reads or writes. The Tk variable
  \<^verbatim>\<open>capture_interval_sec\<close> is taken to hold a float. \<open>workers\<close> lists the frames of the
  detection threads that have been started and have not yet run.
\<close>

record EmotionApp =
  running :: bool
  model_loaded :: bool
  model_labels :: "string list option"
  selected_model_path :: string
  selected_model_name :: string
  capture_interval_sec :: real
  last_preview_time :: "real option"
  fps :: real
  last_detect_time :: real
  timer_enabled :: bool
  timer_start_time :: real
  session_records :: "detection_record list"
  session_start_time :: "real option"
  last_emotion :: "(string \<times> real) option"
  last_emotion_time :: "string option"
  workers :: "frame list"

definition init_app :: EmotionApp where
  "init_app =
     \<lparr>running = False, model_loaded = False, model_labels = None,
      selected_model_path = [], selected_model_name = [],
      capture_interval_sec = 2.0, last_preview_time = None, fps = 0,
      last_detect_time = 0, timer_enabled = False, timer_start_time = 0,
      session_records = [], session_start_time = None,
      last_emotion = None, last_emotion_time = None, workers = []\<rparr>"

text \<open>\<^verbatim>\<open>on_done\<close> of \<^verbatim>\<open>_load_model_async\<close> after a successful load.\<close>

definition app_model_loaded :: "string \<Rightarrow> string \<Rightarrow> int \<Rightarrow> EmotionApp \<Rightarrow> EmotionApp" where
  "app_model_loaded path name n app =
     app\<lparr>selected_model_path := path, selected_model_name := name,
         model_loaded := True, model_labels := Some (get_label_set_for_classes n)\<rparr>"

text \<open>
  \<^verbatim>\<open>start_camera\<close>. \<open>load\<close> is the outcome of loading the selected model (its class
  count), \<open>cam_opened\<close> whether the camera opened; the clock is read for the session, for
  the preview and, last, in \<^verbatim>\<open>_start_capture_timer\<close>.
\<close>

definition start_camera ::
  "error + int \<Rightarrow> bool \<Rightarrow> real \<Rightarrow> real \<Rightarrow> real \<Rightarrow> EmotionApp \<Rightarrow> EmotionApp \<times> app_event list" where
  "start_camera load cam_opened t_session t_preview t_timer app =
     (if running app then (app, [])
      else if \<not> model_loaded app \<and> selected_model_path app = [] then (app, [Warning_model_required])
      else
        (case (if model_loaded app then Inr app
               else (case load of
                       Inl e \<Rightarrow> Inl e
                     | Inr n \<Rightarrow> Inr (app\<lparr>model_loaded := True,
                                         model_labels := Some (get_label_set_for_classes n)\<rparr>))) of
           Inl e \<Rightarrow> (app, [Error_model_load e])
         | Inr app' \<Rightarrow>
             if \<not> cam_opened then (app', [Error_camera])
             else (app'\<lparr>running := True, session_records := [],
                        session_start_time := Some t_session,
                        last_preview_time := Some t_preview,
                        last_detect_time := 0,
                        timer_enabled := True, timer_start_time := t_timer\<rparr>, [])))"

text \<open>
  \<^verbatim>\<open>_update_preview\<close> at clock reading \<open>now\<close>; \<open>read\<close> is the frame the camera returns,
  \<^verbatim>\<open>None\<close> for a failed read. A due detection is started on a thread of its own.
\<close>

definition update_preview ::
  "real \<Rightarrow> frame option \<Rightarrow> EmotionApp \<Rightarrow> EmotionApp \<times> app_event list" where
  "update_preview now read app =
     (if \<not> running app then (app, [])
      else case read of
        None \<Rightarrow> (app, [Status_camera_read_error])
      | Some fr \<Rightarrow>
          (let dt = now - (case last_preview_time app of
                             None \<Rightarrow> now
                           | Some t \<Rightarrow> if t = 0 then now else t);
               app1 = app\<lparr>last_preview_time := Some now\<rparr>;
               app2 = (if 0 < dt
                       then app1\<lparr>fps := (let inst_fps = 1 / dt
                                          in if 0 < fps app1 then 0.9 * fps app1 + 0.1 * inst_fps
                                             else inst_fps)\<rparr>
                       else app1)
           in if model_loaded app2
                 \<and> max 0.1 (capture_interval_sec app2) \<le> now - last_detect_time app2
              then (app2\<lparr>last_detect_time := now, workers := workers app2 @ [fr]\<rparr>,
                    [Thread_started fr])
              else (app2, [])))"

text \<open>
  \<^verbatim>\<open>_run_detection(frame_bgr)\<close>, the body of a detection thread, with the formatted
  clock reading \<open>ts\<close>. Every exception is caught and shown in the status line.
\<close>

definition run_detection ::
  "frame \<Rightarrow> string \<Rightarrow> EmotionApp \<Rightarrow> EmotionApp \<times> app_event list" where
  "run_detection frame_bgr ts app =
     (if \<not> image_prepared frame_bgr then (app, [Status_prediction_error ValueError])
      else case predict_emotion (model_output frame_bgr) of
        Inl e \<Rightarrow> (app, [Status_prediction_error e])
      | Inr (label_idx, conf, prob_vec) \<Rightarrow>
          (let label = resolve_label (model_labels app) label_idx prob_vec
           in (app\<lparr>last_emotion := Some (label, conf),
                   last_emotion_time := Some ts,
                   session_records := session_records app @
                     [\<lparr>rec_timestamp = ts, rec_emotion = label, rec_confidence = conf,
                       rec_img_data = jpeg_bytes frame_bgr,
                       rec_model = selected_model_name app\<rparr>]\<rparr>, [])))"

text \<open>The \<open>i\<close>-th started thread runs to its end.\<close>

definition worker_completes ::
  "nat \<Rightarrow> string \<Rightarrow> EmotionApp \<Rightarrow> EmotionApp \<times> app_event list" where
  "worker_completes i ts app =
     (if i < length (workers app)
      then run_detection (workers app ! i) ts
             (app\<lparr>workers := take i (workers app) @ drop (Suc i) (workers app)\<rparr>)
      else (app, []))"

text \<open>
  \<^verbatim>\<open>_save_session_report\<close> of the application: \<open>stamp\<close> is the formatted clock reading
  for the file name, \<open>now\<close> the reading for the duration.
\<close>

definition app_save_session_report ::
  "app_report_generator \<Rightarrow> string \<Rightarrow> real \<Rightarrow> EmotionApp \<Rightarrow> app_event list" where
  "app_save_session_report gen stamp now app =
     (let pdf_path = ''results/sesion_'' @ stamp @ ''.pdf'';
          total_duration = (case session_start_time app of
                              None \<Rightarrow> 0
                            | Some t0 \<Rightarrow> if t0 = 0 then 0 else now - t0);
          call = Save_report pdf_path (session_records app) (selected_model_name app)
                   (capture_interval_sec app) total_duration
      in case gen pdf_path (session_records app) (selected_model_name app)
                (capture_interval_sec app) total_duration of
           Inl e \<Rightarrow> [call, Error_saving e]
         | Inr _ \<Rightarrow> [call, Info_saved pdf_path (length (session_records app)) total_duration])"

text \<open>\<^verbatim>\<open>stop_and_save\<close>; it returns nothing.\<close>

definition stop_and_save ::
  "app_report_generator \<Rightarrow> string \<Rightarrow> real \<Rightarrow> EmotionApp \<Rightarrow> EmotionApp \<times> app_event list" where
  "stop_and_save gen stamp now app =
     (if \<not> running app then (app, [Info_camera_inactive])
      else
        (let app' = app\<lparr>running := False, timer_enabled := False\<rparr>
         in (app',
             if session_records app' \<noteq> [] then app_save_session_report gen stamp now app'
             else [Info_empty_session])))"

text \<open>
  \<^verbatim>\<open>_update_capture_timer\<close>: what the countdown label shows. The interval is read
  afresh at every tick and clamped from below; the cycle number the function also
  computes is a local value that nothing reads.
\<close>

datatype timer_display = Timer_dash | Timer_capturing | Timer_countdown real

definition update_capture_timer :: "real \<Rightarrow> EmotionApp \<Rightarrow> error + timer_display" where
  "update_capture_timer now app =
     (if \<not> timer_enabled app then Inr Timer_dash
      else if \<not> running app then Inr Timer_dash
      else
        (let capture_interval = max 0.1 (capture_interval_sec app);
             total_time = now - timer_start_time app
         in case py_mod total_time capture_interval of
              Inl e \<Rightarrow> Inl e
            | Inr time_in_cycle \<Rightarrow>
                (let time_remaining = capture_interval - time_in_cycle
                 in if time_remaining \<le> 0 then Inr Timer_capturing
                    else Inr (Timer_countdown time_remaining))))"

section \<open>Callers and reachable states\<close>

text \<open>A caller that adds detections one after another: each entry is the emotion, the
  confidence, the optional timestamp and the clock reading of one \<^verbatim>\<open>add_detection\<close> call.
  The first exception ends the sequence.\<close>

fun add_detections ::
  "fromtimestamp \<Rightarrow> (string \<times> real \<times> real option \<times> real) list \<Rightarrow> SessionManager
     \<Rightarrow> error + SessionManager" where
  "add_detections fromts [] m = Inr m"
| "add_detections fromts ((e, c, ts, now) # calls) m =
     (case add_detection fromts e c ts now m of
        Inl err \<Rightarrow> Inl err
      | Inr (m', evs) \<Rightarrow> add_detections fromts calls m')"

text \<open>
  Whether the constructor accepts the timestamp of such a call, and the
  \<^verbatim>\<open>EmotionDetection\<close> object that an accepted call creates.
\<close>

definition accepted :: "fromtimestamp \<Rightarrow> string \<times> real \<times> real option \<times> real \<Rightarrow> bool" where
  "accepted fromts call =
     (case call of (e, c, ts, now) \<Rightarrow>
        (case ts of None \<Rightarrow> True | Some t \<Rightarrow> if t = 0 then True else fromts t = None))"

definition detection_of :: "string \<times> real \<times> real option \<times> real \<Rightarrow> EmotionDetection" where
  "detection_of call =
     (case call of (e, c, ts, now) \<Rightarrow>
        \<lparr>emotion = e, confidence = c,
         timestamp = (case ts of None \<Rightarrow> now | Some t \<Rightarrow> if t = 0 then now else t)\<rparr>)"

text \<open>
  A whole session: \<^verbatim>\<open>start_session()\<close>, the given \<^verbatim>\<open>add_detection\<close> calls, then
  \<^verbatim>\<open>end_session(save_report)\<close> at \<open>t_stop\<close>. The result is that of \<^verbatim>\<open>end_session\<close>.
\<close>

definition session_round_trip ::
  "fromtimestamp \<Rightarrow> report_generator \<Rightarrow> datetime \<Rightarrow> real \<Rightarrow> real
     \<Rightarrow> (string \<times> real \<times> real option \<times> real) list \<Rightarrow> bool \<Rightarrow> real \<Rightarrow> SessionManager
     \<Rightarrow> error + (SessionManager \<times> session_stats option \<times> event list)" where
  "session_round_trip fromts gen dt t_start t_timer calls save_report t_stop m =
     (case start_session gen t_start dt t_start t_timer m of
        Inl e \<Rightarrow> Inl e
      | Inr (m', sid, evs) \<Rightarrow>
          (case add_detections fromts calls m' of
             Inl e \<Rightarrow> Inl e
           | Inr m'' \<Rightarrow> end_session gen save_report t_stop m''))"

text \<open>
  Detection threads of the original application that run to their end one after another:
  each entry is the frame of a thread and the formatted clock reading it takes.
\<close>

definition run_detections :: "(frame \<times> string) list \<Rightarrow> EmotionApp \<Rightarrow> EmotionApp" where
  "run_detections threads app = fold (\<lambda>(fr, ts) app'. fst (run_detection fr ts app')) threads app"

text \<open>
  What every manager built by \<^verbatim>\<open>__init__\<close> and changed only by its methods satisfies: a
  session is marked active only while a statistics object exists, and a statistics
  object always has its start time.
\<close>

definition session_ok :: "SessionManager \<Rightarrow> bool" where
  "session_ok m =
     (case current_session m of
        None \<Rightarrow> \<not> session_active m
      | Some s \<Rightarrow> start_time s \<noteq> None)"

section \<open>Arithmetic of the capture timer\<close>

lemma py_mod_pos: "0 < y \<Longrightarrow> py_mod x y = Inr (x - of_int \<lfloor>x / y\<rfloor> * y)"
  by (simp add: py_mod_def)

lemma py_floordiv_pos: "0 < y \<Longrightarrow> py_floordiv x y = Inr (of_int \<lfloor>x / y\<rfloor>)"
  by (simp add: py_floordiv_def)

lemma py_int_of_int [simp]: "py_int (of_int k) = k"
  by (simp add: py_int_def)

lemma floor_remainder_bounds:
  fixes x y :: real
  assumes "0 < y"
  shows "0 \<le> x - of_int \<lfloor>x / y\<rfloor> * y" and "x - of_int \<lfloor>x / y\<rfloor> * y < y"
proof -
  have a: "of_int \<lfloor>x / y\<rfloor> \<le> x / y" by simp
  have b: "x / y < of_int \<lfloor>x / y\<rfloor> + 1" by linarith
  from assms have "(of_int \<lfloor>x / y\<rfloor> \<le> x / y) = (of_int \<lfloor>x / y\<rfloor> * y \<le> x)"
    by (rule pos_le_divide_eq)
  with a have "of_int \<lfloor>x / y\<rfloor> * y \<le> x" by blast
  then show "0 \<le> x - of_int \<lfloor>x / y\<rfloor> * y" by simp
  from assms have "(x / y < of_int \<lfloor>x / y\<rfloor> + 1) = (x < (of_int \<lfloor>x / y\<rfloor> + 1) * y)"
    by (rule pos_divide_less_eq)
  with b have "x < (of_int \<lfloor>x / y\<rfloor> + 1) * y" by blast
  then show "x - of_int \<lfloor>x / y\<rfloor> * y < y" by (simp add: algebra_simps)
qed

text \<open>
  Claim C1. For an enabled capture timer with epoch \<open>e\<close> and interval \<open>i\<close> of at least
  0.1 s, \<^verbatim>\<open>get_timer_status\<close> at clock reading \<open>now\<close> reports the remaining time
  \<open>i - ((now - e) mod i)\<close>, the remainder being \<open>(now - e) - \<lfloor>(now - e) / i\<rfloor> * i\<close>, and the
  cycle count \<open>\<lfloor>(now - e) / i\<rfloor>\<close>; this holds for every \<open>now\<close>, in particular for
  \<open>now \<ge> e\<close>. A timer started with \<^verbatim>\<open>start_capture_timer(x)\<close> at \<open>e\<close> is such a timer
  with \<open>i = max 0.1 x\<close>, and its status read at \<open>e\<close> itself reports \<open>i\<close> as remaining time.
\<close>

theorem timer_status_formula:
  assumes "capture_timer_enabled m"
    and "capture_timer_start m = Some e"
    and "capture_interval m = i"
    and "0.1 \<le> i"
  shows "get_timer_status now m =
           Inr \<lparr>ts_enabled = True,
                ts_time_remaining = i - ((now - e) - of_int \<lfloor>(now - e) / i\<rfloor> * i),
                ts_next_capture = Some (now + (i - ((now - e) - of_int \<lfloor>(now - e) / i\<rfloor> * i))),
                ts_interval = i,
                ts_cycle_count = Some \<lfloor>(now - e) / i\<rfloor>\<rparr>
       \<and> capture_timer_enabled (fst (start_capture_timer (Some x) e m0))
       \<and> capture_timer_start (fst (start_capture_timer (Some x) e m0)) = Some e
       \<and> capture_interval (fst (start_capture_timer (Some x) e m0)) = max 0.1 x
       \<and> get_timer_status e (fst (start_capture_timer (Some x) e m0)) =
           Inr \<lparr>ts_enabled = True, ts_time_remaining = max 0.1 x,
                ts_next_capture = Some (e + max 0.1 x),
                ts_interval = max 0.1 x, ts_cycle_count = Some 0\<rparr>"
proof -
  have pos: "0 < i" using assms(4) by simp
  have status: "get_timer_status now m =
           Inr \<lparr>ts_enabled = True,
                ts_time_remaining = i - ((now - e) - of_int \<lfloor>(now - e) / i\<rfloor> * i),
                ts_next_capture = Some (now + (i - ((now - e) - of_int \<lfloor>(now - e) / i\<rfloor> * i))),
                ts_interval = i,
                ts_cycle_count = Some \<lfloor>(now - e) / i\<rfloor>\<rparr>"
    using assms(1,2,3) pos
    by (simp add: get_timer_status_def Let_def py_mod_pos py_floordiv_pos)
  have pos': "0 < max 0.1 x" by (simp add: max_def)
  have started: "capture_timer_enabled (fst (start_capture_timer (Some x) e m0))"
    "capture_timer_start (fst (start_capture_timer (Some x) e m0)) = Some e"
    "capture_interval (fst (start_capture_timer (Some x) e m0)) = max 0.1 x"
    by (simp_all add: start_capture_timer_def Let_def)
  have at_start: "get_timer_status e (fst (start_capture_timer (Some x) e m0)) =
           Inr \<lparr>ts_enabled = True, ts_time_remaining = max 0.1 x,
                ts_next_capture = Some (e + max 0.1 x),
                ts_interval = max 0.1 x, ts_cycle_count = Some 0\<rparr>"
    using pos'
    by (simp add: get_timer_status_def start_capture_timer_def Let_def py_mod_pos py_floordiv_pos)
  from status started at_start show ?thesis by simp
qed

theorem timer_status_formula_witness:
  "get_timer_status 22 (fst (start_capture_timer (Some 5) 10 (init_manager ''results''))) =
     Inr \<lparr>ts_enabled = True, ts_time_remaining = 3, ts_next_capture = Some 25,
          ts_interval = 5, ts_cycle_count = Some 2\<rparr>"
proof -
  let ?m = "fst (start_capture_timer (Some 5) 10 (init_manager ''results''))"
  have h1: "capture_timer_enabled ?m" by (simp add: start_capture_timer_def Let_def)
  have h2: "capture_timer_start ?m = Some 10" by (simp add: start_capture_timer_def Let_def)
  have h3: "capture_interval ?m = 5" by (simp add: start_capture_timer_def Let_def)
  have h4: "(0.1::real) \<le> 5" by simp
  from timer_status_formula [OF h1 h2 h3 h4, of 22] show ?thesis by simp
qed

text \<open>
  Claim C10. \<^verbatim>\<open>set_capture_interval(x)\<close> stores the clamp of \<open>x\<close> into the closed range
  from 0.1 to 60.0 seconds: 0.1 for a smaller value, 60 for a larger one, \<open>x\<close> itself
  otherwise.
\<close>

theorem set_capture_interval_clamps:
  "capture_interval (set_capture_interval x m) =
     (if x < 0.1 then 0.1 else if 60 < x then 60 else x)"
  by (simp add: set_capture_interval_def MIN_CAPTURE_INTERVAL_def MAX_CAPTURE_INTERVAL_def
      max_def min_def)

theorem set_capture_interval_clamps_witness:
  "capture_interval (set_capture_interval 75 (init_manager ''results'')) = 60
   \<and> capture_interval (set_capture_interval 0.05 (init_manager ''results'')) = 0.1
   \<and> capture_interval (set_capture_interval 2.5 (init_manager ''results'')) = 2.5"
  using set_capture_interval_clamps [of 75 "init_manager ''results''"]
    set_capture_interval_clamps [of "0.05" "init_manager ''results''"]
    set_capture_interval_clamps [of "2.5" "init_manager ''results''"]
  by simp

section \<open>Label selection\<close>

lemma argmax_scan_spec:
  assumes "bi < length pre" and "pre ! bi = bv"
    and "\<forall>j < length pre. pre ! j \<le> bv" and "\<forall>j < bi. pre ! j < bv"
  shows "argmax_scan bi bv (length pre) ys < length (pre @ ys)
       \<and> (\<forall>j < length (pre @ ys). (pre @ ys) ! j \<le> (pre @ ys) ! argmax_scan bi bv (length pre) ys)
       \<and> (\<forall>j < argmax_scan bi bv (length pre) ys.
             (pre @ ys) ! j < (pre @ ys) ! argmax_scan bi bv (length pre) ys)"
  using assms
proof (induction ys arbitrary: pre bi bv)
  case Nil
  then show ?case by simp
next
  case (Cons y ys)
  show ?case
  proof (cases "bv < y")
    case True
    have a: "length pre < length (pre @ [y])" by simp
    have b: "(pre @ [y]) ! length pre = y" by simp
    have c: "\<forall>j < length (pre @ [y]). (pre @ [y]) ! j \<le> y"
    proof (intro allI impI)
      fix j assume "j < length (pre @ [y])"
      then consider "j < length pre" | "j = length pre" by fastforce
      then show "(pre @ [y]) ! j \<le> y"
      proof cases
        case 1
        with Cons.prems(3) True show ?thesis by (simp add: nth_append) (meson less_le_trans less_imp_le not_le)
      next
        case 2
        then show ?thesis by simp
      qed
    qed
    have d: "\<forall>j < length pre. (pre @ [y]) ! j < y"
      using Cons.prems(3) True by (auto simp: nth_append intro: le_less_trans)
    from Cons.IH [OF a b c d] True show ?thesis by simp
  next
    case False
    have a: "bi < length (pre @ [y])" using Cons.prems(1) by simp
    have b: "(pre @ [y]) ! bi = bv" using Cons.prems(1,2) by (simp add: nth_append)
    have c: "\<forall>j < length (pre @ [y]). (pre @ [y]) ! j \<le> bv"
      using Cons.prems(3) False by (auto simp: nth_append less_Suc_eq)
    have d: "\<forall>j < bi. (pre @ [y]) ! j < bv"
      using Cons.prems(1,4) by (auto simp: nth_append)
    from Cons.IH [OF a b c d] False show ?thesis by simp
  qed
qed

lemma np_argmax_spec:
  assumes "xs \<noteq> []"
  shows "\<exists>r. np_argmax xs = Inr r \<and> r < length xs \<and> xs ! r = Max (set xs)
             \<and> (\<forall>j < r. xs ! j < xs ! r)"
proof -
  from assms obtain x rest where xs: "xs = x # rest" by (cases xs) auto
  define r where "r = argmax_scan 0 x 1 rest"
  have "argmax_scan 0 x (length [x]) rest < length ([x] @ rest)
       \<and> (\<forall>j < length ([x] @ rest). ([x] @ rest) ! j \<le> ([x] @ rest) ! argmax_scan 0 x (length [x]) rest)
       \<and> (\<forall>j < argmax_scan 0 x (length [x]) rest.
             ([x] @ rest) ! j < ([x] @ rest) ! argmax_scan 0 x (length [x]) rest)"
    by (rule argmax_scan_spec) simp_all
  then have r: "r < length xs" "\<forall>j < length xs. xs ! j \<le> xs ! r" "\<forall>j < r. xs ! j < xs ! r"
    by (simp_all add: r_def xs)
  have "Max (set xs) = xs ! r"
  proof (rule Max_eqI)
    show "finite (set xs)" by simp
    show "xs ! r \<in> set xs" using r(1) by simp
    fix y assume "y \<in> set xs"
    then obtain j where "j < length xs" "xs ! j = y" by (auto simp: in_set_conv_nth)
    with r(2) show "y \<le> xs ! r" by auto
  qed
  moreover have "np_argmax xs = Inr r" by (simp add: np_argmax_def xs r_def)
  ultimately show ?thesis using r by auto
qed

text \<open>
  Claim C7. For a non-empty probability vector the selected index is the first position
  of the maximum: every earlier entry is strictly smaller, so exact ties go to the lowest
  index. \<^verbatim>\<open>predict_emotion\<close> returns that index with the maximum as confidence, the
  label lookup of \<^verbatim>\<open>_run_detection\<close> returns the label at that index, and so does
  \<^verbatim>\<open>_process_predictions\<close> whenever the maximum reaches the confidence threshold (it
  returns nothing below the threshold). For the 7-class vector 0.5, 0.5, 0, 0, 0, 0, 0
  the index is 0, the confidence 0.5, and the label the first one of the 7-class set.
\<close>

theorem argmax_label_selection:
  assumes "prob \<noteq> []"
    and "emotion_labels em = Some labels"
    and "length labels = length prob"
    and "confidence_threshold em \<le> Max (set prob)"
  shows "(\<exists>idx r. idx < length prob
            \<and> prob ! idx = Max (set prob)
            \<and> (\<forall>j < idx. prob ! j < prob ! idx)
            \<and> predict_emotion (Inr prob) = Inr (idx, Max (set prob), prob)
            \<and> resolve_label (Some labels) idx prob = labels ! idx
            \<and> process_predictions prob now em = Some r
            \<and> pr_emotion r = labels ! idx
            \<and> pr_confidence r = Max (set prob)
            \<and> pr_class_index r = idx)
       \<and> predict_emotion (Inr [0.5, 0.5, 0, 0, 0, 0, 0]) = Inr (0, 0.5, [0.5, 0.5, 0, 0, 0, 0, 0])
       \<and> resolve_label (Some (get_label_set_for_classes 7)) 0 [0.5, 0.5, 0, 0, 0, 0, 0] = ''enfado''
       \<and> map_option (\<lambda>r. (pr_emotion r, pr_confidence r, pr_class_index r))
            (process_predictions [0.5, 0.5, 0, 0, 0, 0, 0] now (model_loaded_with 7 init_model))
          = Some (''Enojado'', 0.5, 0)"
proof -
  from np_argmax_spec [OF assms(1)] obtain idx where
    idx: "np_argmax prob = Inr idx" "idx < length prob" "prob ! idx = Max (set prob)"
      "\<forall>j < idx. prob ! j < prob ! idx"
    by blast
  have pe: "predict_emotion (Inr prob) = Inr (idx, Max (set prob), prob)"
    using idx(1,3) by (simp add: predict_emotion_def)
  have ne: "labels \<noteq> []" using assms(1,3) by auto
  have rl: "resolve_label (Some labels) idx prob = labels ! idx"
    using idx(2) assms(3) ne by (simp add: resolve_label_def)
  have nlt: "\<not> Max (set prob) < confidence_threshold em" using assms(4) by simp
  obtain r where r: "process_predictions prob now em = Some r"
    "pr_emotion r = labels ! idx" "pr_confidence r = Max (set prob)" "pr_class_index r = idx"
    using idx(1,2,3) assms(2,3) ne nlt
    by (simp add: process_predictions_def Let_def)
  have general: "\<exists>idx r. idx < length prob
            \<and> prob ! idx = Max (set prob)
            \<and> (\<forall>j < idx. prob ! j < prob ! idx)
            \<and> predict_emotion (Inr prob) = Inr (idx, Max (set prob), prob)
            \<and> resolve_label (Some labels) idx prob = labels ! idx
            \<and> process_predictions prob now em = Some r
            \<and> pr_emotion r = labels ! idx
            \<and> pr_confidence r = Max (set prob)
            \<and> pr_class_index r = idx"
    using idx(2,3,4) pe rl r by blast
  have am: "np_argmax [0.5, 0.5, 0, 0, 0, 0, 0] = Inr 0"
    by (simp add: np_argmax_def)
  have tie1: "predict_emotion (Inr [0.5, 0.5, 0, 0, 0, 0, 0]) = Inr (0, 0.5, [0.5, 0.5, 0, 0, 0, 0, 0])"
    using am by (simp add: predict_emotion_def)
  have tie2: "resolve_label (Some (get_label_set_for_classes 7)) 0 [0.5, 0.5, 0, 0, 0, 0, 0] = ''enfado''"
    by (simp add: resolve_label_def get_label_set_for_classes_def fer5_def)
  have tie3: "map_option (\<lambda>r. (pr_emotion r, pr_confidence r, pr_class_index r))
            (process_predictions [0.5, 0.5, 0, 0, 0, 0, 0] now (model_loaded_with 7 init_model))
          = Some (''Enojado'', 0.5, 0)"
    using am by (simp add: process_predictions_def Let_def model_loaded_with_def init_model_def
        get_labels_for_classes_def EMOTION_LABELS_7_def DEFAULT_CONFIDENCE_THRESHOLD_def)
  from general tie1 tie2 tie3 show ?thesis by blast
qed

theorem argmax_label_selection_witness:
  "predict_emotion (Inr [0.2, 0.1, 0.2, 0.1, 0.4]) = Inr (4, 0.4, [0.2, 0.1, 0.2, 0.1, 0.4])
   \<and> map_option (\<lambda>r. (pr_emotion r, pr_confidence r, pr_class_index r))
        (process_predictions [0.2, 0.1, 0.2, 0.1, 0.4] 0
           (set_confidence_threshold 0.3 (model_loaded_with 5 init_model)))
      = Some (''Triste'', 0.4, 4)"
proof -
  let ?prob = "[0.2, 0.1, 0.2, 0.1, 0.4] :: real list"
  let ?em = "set_confidence_threshold 0.3 (model_loaded_with 5 init_model)"
  have h1: "?prob \<noteq> []" by simp
  have h2: "emotion_labels ?em = Some EMOTION_LABELS_5"
    by (simp add: set_confidence_threshold_def model_loaded_with_def get_labels_for_classes_def)
  have h3: "length EMOTION_LABELS_5 = length ?prob" by (simp add: EMOTION_LABELS_5_def)
  have mx: "Max (set ?prob) = 0.4" by simp
  have h4: "confidence_threshold ?em \<le> Max (set ?prob)"
    by (simp add: set_confidence_threshold_def)
  from argmax_label_selection [OF h1 h2 h3 h4, of 0] obtain idx r where
    a: "idx < length ?prob" "?prob ! idx = Max (set ?prob)"
       "predict_emotion (Inr ?prob) = Inr (idx, Max (set ?prob), ?prob)"
       "process_predictions ?prob 0 ?em = Some r" "pr_emotion r = EMOTION_LABELS_5 ! idx"
       "pr_confidence r = Max (set ?prob)" "pr_class_index r = idx"
    by blast
  have "idx = 4"
  proof -
    from a(1) have "idx \<in> {0, 1, 2, 3, 4}" by auto
    with a(2) show ?thesis unfolding mx by auto
  qed
  with a mx show ?thesis by (simp add: EMOTION_LABELS_5_def)
qed

text \<open>
  Claim C8, as amended. For a class count other than 5, 6, 7 and 8 the fallback labels
  are Spanish: \<^verbatim>\<open>get_label_set_for_classes\<close> yields \<open>clase_0\<close>, \<open>clase_1\<close>, ... and
  \<^verbatim>\<open>EmotionConfig.get_labels_for_classes\<close> yields \<open>Clase_0\<close>, \<open>Clase_1\<close>, ..., one label
  per index below the count. On the 3-class vector 0.1, 0.7, 0.2 the selected index is 1
  with confidence 0.7, and the label is \<open>clase_1\<close> in the original application and
  \<open>Clase_1\<close> in the emotion model.
\<close>

theorem fallback_labels:
  assumes "n \<noteq> 5" and "n \<noteq> 6" and "n \<noteq> 7" and "n \<noteq> 8"
  shows "get_label_set_for_classes n = map (\<lambda>i. ''clase_'' @ str_nat i) [0..<nat n]
       \<and> get_labels_for_classes n = map (\<lambda>i. ''Clase_'' @ str_nat i) [0..<nat n]
       \<and> predict_emotion (Inr [0.1, 0.7, 0.2]) = Inr (1, 0.7, [0.1, 0.7, 0.2])
       \<and> resolve_label (Some (get_label_set_for_classes 3)) 1 [0.1, 0.7, 0.2] = ''clase_1''
       \<and> map_option (\<lambda>r. (pr_emotion r, pr_confidence r))
            (process_predictions [0.1, 0.7, 0.2] now (model_loaded_with 3 init_model))
          = Some (''Clase_1'', 0.7)"
proof -
  have a: "get_label_set_for_classes n = map (\<lambda>i. ''clase_'' @ str_nat i) [0..<nat n]"
    using assms by (simp add: get_label_set_for_classes_def)
  have b: "get_labels_for_classes n = map (\<lambda>i. ''Clase_'' @ str_nat i) [0..<nat n]"
    using assms by (simp add: get_labels_for_classes_def)
  have a3: "get_label_set_for_classes 3 = [''clase_0'', ''clase_1'', ''clase_2'']"
    by (simp add: get_label_set_for_classes_def str_nat.simps upt_rec)
  have b3: "get_labels_for_classes 3 = [''Clase_0'', ''Clase_1'', ''Clase_2'']"
    by (simp add: get_labels_for_classes_def str_nat.simps upt_rec)
  have am: "np_argmax [0.1, 0.7, 0.2] = Inr 1"
    by (simp add: np_argmax_def)
  have c: "predict_emotion (Inr [0.1, 0.7, 0.2]) = Inr (1, 0.7, [0.1, 0.7, 0.2])"
    using am by (simp add: predict_emotion_def)
  have d: "resolve_label (Some (get_label_set_for_classes 3)) 1 [0.1, 0.7, 0.2] = ''clase_1''"
    unfolding a3 by (simp add: resolve_label_def)
  have e: "map_option (\<lambda>r. (pr_emotion r, pr_confidence r))
            (process_predictions [0.1, 0.7, 0.2] now (model_loaded_with 3 init_model))
          = Some (''Clase_1'', 0.7)"
    using am unfolding model_loaded_with_def b3
    by (simp add: process_predictions_def Let_def init_model_def DEFAULT_CONFIDENCE_THRESHOLD_def)
  from a b c d e show ?thesis by blast
qed

text \<open>The labels of a 2-class model, and the eleventh label of an 11-class model.\<close>

theorem fallback_labels_witness:
  "get_label_set_for_classes 2 = [''clase_0'', ''clase_1'']
   \<and> get_labels_for_classes 2 = [''Clase_0'', ''Clase_1'']
   \<and> get_label_set_for_classes 11 ! 10 = ''clase_10''"
proof -
  have h: "(2::int) \<noteq> 5" "(2::int) \<noteq> 6" "(2::int) \<noteq> 7" "(2::int) \<noteq> 8" by simp_all
  have k: "(11::int) \<noteq> 5" "(11::int) \<noteq> 6" "(11::int) \<noteq> 7" "(11::int) \<noteq> 8" by simp_all
  from fallback_labels [OF h, of 0] fallback_labels [OF k, of 0]
  show ?thesis by (simp add: str_nat.simps upt_rec)
qed

text \<open>
  The claim as written names the label \<open>class_1\<close>; neither label set contains it.
\<close>

theorem fallback_labels_counterexample:
  "get_label_set_for_classes 3 = [''clase_0'', ''clase_1'', ''clase_2'']
   \<and> get_labels_for_classes 3 = [''Clase_0'', ''Clase_1'', ''Clase_2'']
   \<and> resolve_label (Some (get_label_set_for_classes 3)) 1 [0.1, 0.7, 0.2] \<noteq> ''class_1''
   \<and> map_option pr_emotion
         (process_predictions [0.1, 0.7, 0.2] 0 (model_loaded_with 3 init_model))
       \<noteq> Some ''class_1''"
proof -
  have a: "get_label_set_for_classes 3 = [''clase_0'', ''clase_1'', ''clase_2'']"
    by (simp add: get_label_set_for_classes_def str_nat.simps upt_rec)
  have b: "get_labels_for_classes 3 = [''Clase_0'', ''Clase_1'', ''Clase_2'']"
    by (simp add: get_labels_for_classes_def str_nat.simps upt_rec)
  have am: "np_argmax [0.1, 0.7, 0.2] = Inr 1"
    by (simp add: np_argmax_def)
  have c: "resolve_label (Some (get_label_set_for_classes 3)) 1 [0.1, 0.7, 0.2] \<noteq> ''class_1''"
    unfolding a by (simp add: resolve_label_def)
  have d: "map_option pr_emotion
         (process_predictions [0.1, 0.7, 0.2] 0 (model_loaded_with 3 init_model))
       \<noteq> Some ''class_1''"
    using am unfolding model_loaded_with_def b
    by (simp add: process_predictions_def Let_def init_model_def DEFAULT_CONFIDENCE_THRESHOLD_def)
  from a b c d show ?thesis by blast
qed

section \<open>Sessions\<close>

lemma deque_append_fold:
  assumes "0 < n" and "length h \<le> n"
  shows "fold (deque_append n) xs h = drop (length h + length xs - n) (h @ xs)"
  using assms(2)
proof (induction xs arbitrary: h)
  case Nil
  then show ?case by simp
next
  case (Cons x xs)
  show ?case
  proof (cases "length h < n")
    case True
    then have step: "deque_append n x h = h @ [x]" using assms(1) by (simp add: deque_append_def)
    have "length (h @ [x]) \<le> n" using True by simp
    from Cons.IH [OF this] show ?thesis by (simp add: step)
  next
    case False
    with Cons.prems have len: "length h = n" by simp
    then have ne: "h \<noteq> []" using assms(1) by auto
    have step: "deque_append n x h = tl h @ [x]"
      using False assms(1) by (simp add: deque_append_def)
    have "length (tl h @ [x]) \<le> n" using len ne assms(1) by simp
    from Cons.IH [OF this] have "fold (deque_append n) xs (tl h @ [x]) =
        drop (length xs) (tl h @ x # xs)"
      using len ne assms(1) by simp
    moreover have "drop (length h + length (x # xs) - n) (h @ x # xs) =
        drop (length xs) (tl h @ x # xs)"
      using len ne by (cases h) simp_all
    ultimately show ?thesis by (simp add: step)
  qed
qed

lemma fold_stats_fields:
  "total_detections (fold stats_add_detection ds s) = total_detections s + length ds"
  "start_time (fold stats_add_detection ds s) = start_time s"
  "detections_history (fold stats_add_detection ds s) =
     fold (deque_append MAX_EMOTION_HISTORY) ds (detections_history s)"
  by (induction ds arbitrary: s) (simp_all add: stats_add_detection_def)

lemma new_detection_accepted:
  assumes "accepted fromts (e, c, ts, now)"
  shows "new_detection fromts e c ts now = Inr (detection_of (e, c, ts, now))"
  using assms
  by (auto simp: accepted_def new_detection_def detection_of_def split: option.splits if_splits)

lemma add_detection_rejected_timestamp:
  assumes "session_active m" and "current_session m = Some s"
    and "t \<noteq> 0" and "fromts t = Some err"
  shows "add_detection fromts e c (Some t) now m = Inl err"
  using assms by (simp add: add_detection_def new_detection_def)

lemma add_detections_active:
  assumes "session_active m" and "current_session m = Some s"
    and "list_all (accepted fromts) calls"
  shows "add_detections fromts calls m =
     Inr (m\<lparr>current_session := Some (fold stats_add_detection (map detection_of calls) s)\<rparr>)"
  using assms
proof (induction calls arbitrary: m s)
  case Nil
  then show ?case by simp
next
  case (Cons call calls)
  obtain e c ts now where call: "call = (e, c, ts, now)" by (cases call) auto
  let ?m = "m\<lparr>current_session := Some (stats_add_detection (detection_of call) s)\<rparr>"
  from Cons.prems(3) have acc: "accepted fromts (e, c, ts, now)" and rest: "list_all (accepted fromts) calls"
    by (simp_all add: call)
  have m1: "add_detection fromts e c ts now m =
      Inr (?m, (if detection_callback m then [Detection_callback (detection_of call)] else [])
                 @ [Print_detection_added e c])"
    using Cons.prems(1,2) by (simp add: add_detection_def new_detection_accepted [OF acc] call)
  have a: "session_active ?m" using Cons.prems(1) by simp
  have b: "current_session ?m = Some (stats_add_detection (detection_of call) s)"
    by simp
  have "add_detections fromts (call # calls) m = add_detections fromts calls ?m"
    by (simp add: call m1)
  also have "\<dots> = Inr (?m\<lparr>current_session :=
      Some (fold stats_add_detection (map detection_of calls)
             (stats_add_detection (detection_of call) s))\<rparr>)"
    by (rule Cons.IH [OF a b rest])
  finally show ?case by simp
qed

lemma start_session_idle:
  assumes "\<not> session_active m"
  shows "start_session gen t_end dt t_start t_timer m =
     Inr (m\<lparr>session_id := Some (strftime_session dt),
            current_session := Some (new_statistics\<lparr>start_time := Some t_start\<rparr>),
            session_active := True,
            capture_timer_start := Some t_timer,
            next_capture_time := Some (t_timer + capture_interval m)\<rparr>,
          strftime_session dt, [Print_session_started (strftime_session dt)])"
  using assms by (simp add: start_session_def Let_def)

lemma end_session_active:
  assumes "session_active m" and "current_session m = Some s" and "start_time s = Some t0"
  shows "end_session gen save_report now m =
     Inr (m\<lparr>current_session := None, session_active := False,
            capture_timer_enabled := False, session_id := None\<rparr>,
          Some (to_dict (s\<lparr>end_time := Some now, duration := now - t0\<rparr>)),
          [Print_session_ended (session_id m), Print_duration (now - t0),
           Print_detections (total_detections s),
           Print_dominant (get_dominant_emotion (s\<lparr>end_time := Some now, duration := now - t0\<rparr>))]
          @ (if save_report \<and> 0 < total_detections s
             then (case save_session_report_of gen
                          (m\<lparr>current_session := Some (s\<lparr>end_time := Some now, duration := now - t0\<rparr>),
                             session_active := False, capture_timer_enabled := False\<rparr>)
                          (to_dict (s\<lparr>end_time := Some now, duration := now - t0\<rparr>)) of
                     (evs, None) \<Rightarrow> evs
                   | (evs, Some e) \<Rightarrow> evs @ [Print_report_error e])
             else []))"
  using assms by (simp add: end_session_def Let_def to_dict_def)


lemma round_trip_result:
  assumes "\<not> session_active m" and "list_all (accepted fromts) calls"
  shows "\<exists>m1. session_round_trip fromts gen dt t_start t_timer calls save_report t_stop m =
            end_session gen save_report t_stop m1
          \<and> session_active m1
          \<and> session_id m1 = Some (strftime_session dt)
          \<and> current_session m1 =
              Some (fold stats_add_detection (map detection_of calls)
                      (new_statistics\<lparr>start_time := Some t_start\<rparr>))"
proof -
  let ?m1 = "m\<lparr>session_id := Some (strftime_session dt),
            current_session := Some (new_statistics\<lparr>start_time := Some t_start\<rparr>),
            session_active := True,
            capture_timer_start := Some t_timer,
            next_capture_time := Some (t_timer + capture_interval m)\<rparr>"
  have a: "session_active ?m1" by simp
  have b: "current_session ?m1 = Some (new_statistics\<lparr>start_time := Some t_start\<rparr>)" by simp
  let ?m2 = "?m1\<lparr>current_session :=
      Some (fold stats_add_detection (map detection_of calls)
              (new_statistics\<lparr>start_time := Some t_start\<rparr>))\<rparr>"
  have added: "add_detections fromts calls ?m1 = Inr ?m2"
    by (rule add_detections_active [OF a b assms(2)])
  have eq: "session_round_trip fromts gen dt t_start t_timer calls save_report t_stop m =
      end_session gen save_report t_stop ?m2"
    by (simp add: session_round_trip_def start_session_idle [OF assms(1)] added)
  have "session_active ?m2" "session_id ?m2 = Some (strftime_session dt)"
    "current_session ?m2 = Some (fold stats_add_detection (map detection_of calls)
              (new_statistics\<lparr>start_time := Some t_start\<rparr>))"
    by simp_all
  with eq show ?thesis by blast
qed

lemma save_session_report_of_call:
  assumes "st_start_time stats = Some t0" and "st_end_time stats = Some t1"
  shows "\<exists>data path rest err.
     save_session_report_of gen m stats = (Save_session_report data path # rest, err)
     \<and> sd_total_detections data = st_total_detections stats
     \<and> sd_duration data = st_duration stats
     \<and> sd_start_time data = t0 \<and> sd_end_time data = t1
     \<and> (\<forall>ev \<in> set rest. \<forall>d p. ev \<noteq> Save_session_report d p)"
  using assms
  by (auto simp: save_session_report_of_def Let_def split: sum.splits)

lemma round_trip_stats:
  assumes "\<not> session_active m" and "list_all (accepted fromts) calls"
  shows "\<exists>m' stats evs.
     session_round_trip fromts gen dt t_start t_timer calls save_report t_stop m = Inr (m', Some stats, evs)
   \<and> \<not> session_active m' \<and> current_session m' = None
   \<and> st_total_detections stats = length calls
   \<and> st_detections_history stats =
       drop (length calls - MAX_EMOTION_HISTORY) (map detection_of calls)
   \<and> st_start_time stats = Some t_start \<and> st_end_time stats = Some t_stop
   \<and> st_duration stats = t_stop - t_start
   \<and> (save_report \<and> calls \<noteq> [] \<longrightarrow>
        (\<exists>data path. Save_session_report data path \<in> set evs
           \<and> sd_total_detections data = length calls
           \<and> sd_duration data = t_stop - t_start
           \<and> sd_start_time data = t_start \<and> sd_end_time data = t_stop))
   \<and> (\<not> save_report \<or> calls = [] \<longrightarrow>
        evs = [Print_session_ended (Some (strftime_session dt)), Print_duration (t_stop - t_start),
               Print_detections (length calls),
               Print_dominant (st_dominant_emotion stats)])"
proof -
  let ?s = "fold stats_add_detection (map detection_of calls)
              (new_statistics\<lparr>start_time := Some t_start\<rparr>)"
  let ?s' = "?s\<lparr>end_time := Some t_stop, duration := t_stop - t_start\<rparr>"
  let ?stats = "to_dict ?s'"
  have st: "start_time ?s = Some t_start" by (simp add: fold_stats_fields)
  have tot: "total_detections ?s = length calls"
    by (simp add: fold_stats_fields new_statistics_def)
  have hist: "detections_history ?s =
      drop (length calls - MAX_EMOTION_HISTORY) (map detection_of calls)"
    using deque_append_fold [of MAX_EMOTION_HISTORY "[]" "map detection_of calls"]
    by (simp add: fold_stats_fields new_statistics_def MAX_EMOTION_HISTORY_def)
  from round_trip_result [OF assms, of gen dt t_start t_timer save_report t_stop]
  obtain m1 where m1: "session_round_trip fromts gen dt t_start t_timer calls save_report t_stop m =
            end_session gen save_report t_stop m1"
    and a: "session_active m1" and sid: "session_id m1 = Some (strftime_session dt)"
    and b: "current_session m1 = Some ?s"
    by blast
  note res = m1 end_session_active [OF a b st, of gen save_report t_stop]
  have f1: "st_start_time ?stats = Some t_start" "st_end_time ?stats = Some t_stop"
    by (simp_all add: to_dict_def st)
  from save_session_report_of_call [OF f1, of gen
      "m1\<lparr>current_session := Some ?s', session_active := False, capture_timer_enabled := False\<rparr>"]
  obtain data path rest err where call:
    "save_session_report_of gen
       (m1\<lparr>current_session := Some ?s', session_active := False, capture_timer_enabled := False\<rparr>)
       ?stats = (Save_session_report data path # rest, err)"
    "sd_total_detections data = st_total_detections ?stats"
    "sd_duration data = st_duration ?stats"
    "sd_start_time data = t_start" "sd_end_time data = t_stop"
    by blast
  have tot': "st_total_detections ?stats = length calls" "st_duration ?stats = t_stop - t_start"
    by (simp_all add: to_dict_def tot)
  show ?thesis
    unfolding res
    apply (intro exI conjI)
             apply (rule refl)
            apply simp
           apply simp
          apply (simp add: to_dict_def tot)
         apply (simp add: to_dict_def hist)
        apply (simp add: to_dict_def st)
       apply (simp add: to_dict_def)
      apply (simp add: to_dict_def)
    subgoal
      using call tot' by (cases err) (auto simp: tot)
    subgoal
      by (auto simp: tot to_dict_def sid)
    done
qed

text \<open>
  The dictionary that \<^verbatim>\<open>end_session\<close> returns after \<open>N\<close> accepted detections: the total
  is \<open>N\<close>, the duration is \<open>end_time - start_time\<close>, and the history, bounded by
  \<^verbatim>\<open>MAX_EMOTION_HISTORY\<close>, holds the last \<open>min N 1000\<close> detections in arrival order.
\<close>

lemma session_round_trip_statistics:
  assumes "\<not> session_active m" and "list_all (accepted fromts) calls"
  shows "\<exists>m' stats evs.
     session_round_trip fromts gen dt t_start t_timer calls save_report t_stop m =
       Inr (m', Some stats, evs)
   \<and> st_total_detections stats = length calls
   \<and> st_detections_history stats =
       drop (length calls - MAX_EMOTION_HISTORY) (map detection_of calls)
   \<and> st_start_time stats = Some t_start \<and> st_end_time stats = Some t_stop
   \<and> st_duration stats = t_stop - t_start"
proof -
  from round_trip_stats [OF assms, of gen dt t_start t_timer save_report t_stop]
  obtain m' stats evs where
    "session_round_trip fromts gen dt t_start t_timer calls save_report t_stop m =
       Inr (m', Some stats, evs)"
    "st_total_detections stats = length calls"
    "st_detections_history stats =
       drop (length calls - MAX_EMOTION_HISTORY) (map detection_of calls)"
    "st_start_time stats = Some t_start" "st_end_time stats = Some t_stop"
    "st_duration stats = t_stop - t_start"
    by (elim exE conjE) (rule that; assumption)
  then show ?thesis by blast
qed

text \<open>A call whose timestamp the constructor rejects ends the whole sequence.\<close>

lemma session_round_trip_rejected_timestamp:
  assumes "\<not> session_active m" and "t \<noteq> 0" and "fromts t = Some err"
  shows "session_round_trip fromts gen dt t_start t_timer [(e, c, Some t, now)] save_report t_stop m
         = Inl err"
proof -
  let ?m1 = "m\<lparr>session_id := Some (strftime_session dt),
            current_session := Some (new_statistics\<lparr>start_time := Some t_start\<rparr>),
            session_active := True,
            capture_timer_start := Some t_timer,
            next_capture_time := Some (t_timer + capture_interval m)\<rparr>"
  have a: "session_active ?m1" by simp
  have b: "current_session ?m1 = Some (new_statistics\<lparr>start_time := Some t_start\<rparr>)" by simp
  show ?thesis
    by (simp add: session_round_trip_def start_session_idle [OF assms(1)]
        add_detection_rejected_timestamp [where fromts = fromts and t = t, OF a b assms(2,3)])
qed

text \<open>
  Claim C4 asks that the report input of a finished session holds its \<open>N\<close> records in
  arrival order, with the duration. The original application does that
  (\<open>app_round_trip_records\<close> below). The session manager does not: for a session from
  clock reading 10 to 17 with one detection, the only thing it hands to the report
  generator is the summary dictionary shown here, which has the duration and the count
  but no record, and the call itself ends in \<^verbatim>\<open>TypeError\<close> because the keywords do not
  match the parameters of \<^verbatim>\<open>save_session_report\<close>.
\<close>

theorem report_input_has_no_records:
  "map_sum id (\<lambda>(m', r, evs). evs)
     (session_round_trip fromts (pdf_report_called_by_manager (\<lambda>data path. Inr ()))
        \<lparr>year = 2025, month = 11, day = 4, hour = 9, minute = 30, second = 0\<rparr> 10 10
        [(''feliz'', 0.9, None, 12)] True 17 (init_manager ''results''))
   = Inr [Print_session_ended (Some ''sesion_20251104_093000''), Print_duration 7,
          Print_detections 1, Print_dominant (Some (''feliz'', 1, 0.9)),
          Save_session_report
            \<lparr>sd_session_id = Some ''sesion_20251104_093000'',
             sd_start_time = 10, sd_end_time = 17, sd_duration = 7,
             sd_total_detections = 1,
             sd_emotion_counts = [(''feliz'', 1)],
             sd_emotion_distribution = [(''feliz'', 100)],
             sd_average_confidences = [(''feliz'', 0.9)],
             sd_detection_rate = 60 / 7,
             sd_dominant_emotion = Some (''feliz'', 1, 0.9)\<rparr>
            ''results/sesion_20251104_093000.pdf'',
          Print_report_error TypeError]"
proof -
  have sid: "strftime_session \<lparr>year = 2025, month = 11, day = 4, hour = 9, minute = 30, second = 0\<rparr>
      = ''sesion_20251104_093000''"
    by (simp add: strftime_session_def zero_pad_def str_nat.simps)
  have idle: "\<not> session_active (init_manager ''results'')" by (simp add: init_manager_def)
  have gen: "pdf_report_called_by_manager (\<lambda>data path. Inr ()) = (\<lambda>data path. Inl TypeError)"
    by (simp add: pdf_report_called_by_manager_def bind_keywords_def pdf_report_parameters_def
        fun_eq_iff)
  show ?thesis
    unfolding session_round_trip_def start_session_idle [OF idle] sid gen
    by (simp add: add_detection_def new_detection_def stats_add_detection_def end_session_def
        Let_def new_statistics_def to_dict_def get_dominant_emotion_def
        get_emotion_distribution_def get_average_confidences_def get_detection_rate_def
        save_session_report_of_def init_manager_def deque_append_def MAX_EMOTION_HISTORY_def)
qed

text \<open>
  With 1001 detections the history in the returned dictionary has 1000 entries and
  starts with the second detection: the first one, the only \<open>triste\<close>, is gone.
\<close>

lemma session_history_keeps_last_1000:
  "map_sum id
     (\<lambda>(m', r, evs). map_option
        (\<lambda>stats. (st_total_detections stats, length (st_detections_history stats),
                   map emotion (take 1 (st_detections_history stats)))) r)
     (session_round_trip fromts (\<lambda>data path. Inr ())
        \<lparr>year = 2025, month = 1, day = 2, hour = 3, minute = 4, second = 5\<rparr> 0 0
        ((''triste'', 0.9, None, 1) # replicate 1000 (''feliz'', 0.9, None, 2)) True 3
        (init_manager ''results''))
   = Inr (Some (1001, 1000, [''feliz'']))"
proof -
  let ?calls = "(''triste'', 0.9 :: real, None :: real option, 1 :: real)
                  # replicate 1000 (''feliz'', 0.9, None, 2)"
  have idle: "\<not> session_active (init_manager ''results'')" by (simp add: init_manager_def)
  have acc: "list_all (accepted fromts) ?calls"
    by (simp add: accepted_def list_all_iff)
  from session_round_trip_statistics [OF idle acc, of "\<lambda>data path. Inr ()"
      "\<lparr>year = 2025, month = 1, day = 2, hour = 3, minute = 4, second = 5\<rparr>" 0 0 True 3]
  obtain m' stats evs where
    r: "session_round_trip fromts (\<lambda>data path. Inr ())
        \<lparr>year = 2025, month = 1, day = 2, hour = 3, minute = 4, second = 5\<rparr> 0 0
        ?calls True 3 (init_manager ''results'') = Inr (m', Some stats, evs)"
    and t: "st_total_detections stats = length ?calls"
    and h: "st_detections_history stats =
       drop (length ?calls - MAX_EMOTION_HISTORY) (map detection_of ?calls)"
    by (elim exE conjE) (rule that; assumption)
  have len: "length ?calls = 1001" by simp
  have h': "st_detections_history stats = replicate 1000 (detection_of (''feliz'', 0.9, None, 2))"
    unfolding h len MAX_EMOTION_HISTORY_def by simp
  have "map emotion (take 1 (st_detections_history stats)) = [''feliz'']"
    unfolding h' by (simp add: detection_of_def)
  moreover have "length (st_detections_history stats) = 1000" unfolding h' by simp
  ultimately show ?thesis unfolding r using t len by simp
qed

text \<open>
  Claim C5, as amended. A session that is started and ended with no detection never
  reaches the report generator. In the session manager \<^verbatim>\<open>end_session\<close> succeeds,
  leaves the manager idle and returns the statistics with zero detections; what it prints
  is the four closing lines of every session, with no separate notice about the report.
  In the original application \<^verbatim>\<open>stop_and_save\<close> stops the session and shows the
  empty-session dialog, and returns nothing.
\<close>

theorem empty_session_no_report:
  assumes "\<not> session_active m" and "running app" and "session_records app = []"
  shows "(\<exists>m' stats.
            session_round_trip fromts gen dt t_start t_timer [] save_report t_stop m =
              Inr (m', Some stats,
                   [Print_session_ended (Some (strftime_session dt)),
                    Print_duration (t_stop - t_start), Print_detections 0, Print_dominant None])
          \<and> \<not> session_active m' \<and> current_session m' = None
          \<and> st_total_detections stats = 0 \<and> st_detections_history stats = []
          \<and> st_duration stats = t_stop - t_start)
       \<and> stop_and_save agen stamp now app =
            (app\<lparr>running := False, timer_enabled := False\<rparr>, [Info_empty_session])"
proof -
  have nil: "list_all (accepted fromts) []" by simp
  from round_trip_stats [OF assms(1) nil, of gen dt t_start t_timer save_report t_stop]
  obtain m' stats evs where
    a: "session_round_trip fromts gen dt t_start t_timer [] save_report t_stop m = Inr (m', Some stats, evs)"
    "\<not> session_active m'" "current_session m' = None"
    "st_total_detections stats = 0" "st_detections_history stats = []"
    "st_duration stats = t_stop - t_start"
    and evs: "evs = [Print_session_ended (Some (strftime_session dt)), Print_duration (t_stop - t_start),
               Print_detections 0, Print_dominant (st_dominant_emotion stats)]"
    by auto
  from round_trip_result [OF assms(1) nil, of gen dt t_start t_timer save_report t_stop]
  obtain m1 where m1: "session_round_trip fromts gen dt t_start t_timer [] save_report t_stop m =
            end_session gen save_report t_stop m1"
    "session_active m1"
    "current_session m1 = Some (new_statistics\<lparr>start_time := Some t_start\<rparr>)"
    by auto
  have "st_dominant_emotion stats = None"
    using a(1) unfolding m1(1)
    by (auto simp: end_session_active [OF m1(2,3)] to_dict_def get_dominant_emotion_def
        new_statistics_def)
  with a evs have first: "\<exists>m' stats.
            session_round_trip fromts gen dt t_start t_timer [] save_report t_stop m =
              Inr (m', Some stats,
                   [Print_session_ended (Some (strftime_session dt)),
                    Print_duration (t_stop - t_start), Print_detections 0, Print_dominant None])
          \<and> \<not> session_active m' \<and> current_session m' = None
          \<and> st_total_detections stats = 0 \<and> st_detections_history stats = []
          \<and> st_duration stats = t_stop - t_start"
    by auto
  have second: "stop_and_save agen stamp now app =
            (app\<lparr>running := False, timer_enabled := False\<rparr>, [Info_empty_session])"
    using assms(2,3) by (simp add: stop_and_save_def Let_def)
  from first second show ?thesis by blast
qed

text \<open>An empty session of one minute in either program, with a generator that would fail.\<close>

theorem empty_session_no_report_witness:
  "(\<forall>fromts.
      map_sum id (\<lambda>(m', r, evs). (session_active m', map_option st_total_detections r, evs))
        (session_round_trip fromts (\<lambda>data path. Inl OtherException)
           \<lparr>year = 2025, month = 11, day = 4, hour = 9, minute = 30, second = 0\<rparr> 100 100 [] True 160
           (init_manager ''results''))
      = Inr (False, Some 0,
             [Print_session_ended (Some ''sesion_20251104_093000''), Print_duration 60,
              Print_detections 0, Print_dominant None]))
   \<and> stop_and_save (\<lambda>path records model_name interval total. Inr ()) ''20251104_093100'' 160
        (fst (start_camera (Inr 7) True 100 100 100
               (app_model_loaded ''models/fer.h5'' ''fer.h5'' 7 init_app)))
     = (fst (start_camera (Inr 7) True 100 100 100
               (app_model_loaded ''models/fer.h5'' ''fer.h5'' 7 init_app))
          \<lparr>running := False, timer_enabled := False\<rparr>, [Info_empty_session])"
proof -
  let ?app = "fst (start_camera (Inr 7) True 100 100 100
               (app_model_loaded ''models/fer.h5'' ''fer.h5'' 7 init_app))"
  have h1: "\<not> session_active (init_manager ''results'')" by (simp add: init_manager_def)
  have h2: "running ?app"
    by (simp add: start_camera_def app_model_loaded_def init_app_def)
  have h3: "session_records ?app = []"
    by (simp add: start_camera_def app_model_loaded_def init_app_def)
  have sid: "strftime_session \<lparr>year = 2025, month = 11, day = 4, hour = 9, minute = 30, second = 0\<rparr>
      = ''sesion_20251104_093000''"
    by (simp add: strftime_session_def zero_pad_def str_nat.simps)
  have "map_sum id (\<lambda>(m', r, evs). (session_active m', map_option st_total_detections r, evs))
        (session_round_trip fromts (\<lambda>data path. Inl OtherException)
           \<lparr>year = 2025, month = 11, day = 4, hour = 9, minute = 30, second = 0\<rparr> 100 100 [] True 160
           (init_manager ''results''))
      = Inr (False, Some 0,
             [Print_session_ended (Some ''sesion_20251104_093000''), Print_duration 60,
              Print_detections 0, Print_dominant None])
     \<and> stop_and_save (\<lambda>path records model_name interval total. Inr ()) ''20251104_093100'' 160 ?app
       = (?app\<lparr>running := False, timer_enabled := False\<rparr>, [Info_empty_session])"
    for fromts
    using empty_session_no_report [OF h1 h2 h3, of fromts "\<lambda>data path. Inl OtherException"
      "\<lparr>year = 2025, month = 11, day = 4, hour = 9, minute = 30, second = 0\<rparr>" 100 100 True 160
      "\<lambda>path records model_name interval total. Inr ()" "''20251104_093100''" 160]
    unfolding sid by auto
  then show ?thesis by blast
qed

text \<open>
  The complete output of \<^verbatim>\<open>end_session\<close> for an empty session: the returned count and
  the printed lines. Nothing in it says that no report was produced.
\<close>

theorem empty_session_counterexample:
  "map_sum id (\<lambda>(m', r, evs). (map_option st_total_detections r, evs))
     (end_session (\<lambda>data path. Inr ()) True 160
        (fst (projr (start_session (\<lambda>data path. Inr ()) 100
           \<lparr>year = 2025, month = 11, day = 4, hour = 9, minute = 30, second = 0\<rparr> 100 100
           (init_manager ''results'')))))
   = Inr (Some 0,
          [Print_session_ended (Some ''sesion_20251104_093000''), Print_duration 60,
           Print_detections 0, Print_dominant None])"
proof -
  have sid: "strftime_session \<lparr>year = 2025, month = 11, day = 4, hour = 9, minute = 30, second = 0\<rparr>
      = ''sesion_20251104_093000''"
    by (simp add: strftime_session_def zero_pad_def str_nat.simps)
  have idle: "\<not> session_active (init_manager ''results'')" by (simp add: init_manager_def)
  show ?thesis
    unfolding start_session_idle [OF idle] sid
    by (simp add: end_session_def Let_def new_statistics_def to_dict_def get_dominant_emotion_def)
qed

subsection \<open>The session invariant\<close>

lemma session_ok_init: "session_ok (init_manager dir)"
  by (simp add: session_ok_def init_manager_def)

lemma session_ok_end_session:
  assumes "session_ok m" and "end_session gen save_report now m = Inr (m', r, evs)"
  shows "session_ok m'"
  using assms
  by (auto simp: session_ok_def end_session_def Let_def split: if_splits option.splits)

lemma session_ok_start_session:
  assumes "start_session gen t_end dt t_start t_timer m = Inr (m', sid, evs)"
  shows "session_ok m' \<and> session_active m'"
  using assms
  by (auto simp: session_ok_def start_session_def Let_def split: if_splits sum.splits)

lemma session_ok_add_detection:
  assumes "session_ok m" and "add_detection fromts e c ts now m = Inr (m', evs)"
  shows "session_ok m'"
  using assms
  by (auto simp: session_ok_def add_detection_def Let_def stats_add_detection_def
      split: option.splits if_splits sum.splits)

lemma session_ok_timer:
  assumes "session_ok m"
  shows "session_ok (fst (start_capture_timer interval now m))"
    and "session_ok (fst (stop_capture_timer m))"
    and "session_ok (set_capture_interval x m)"
  using assms
  by (auto simp: session_ok_def start_capture_timer_def stop_capture_timer_def
      set_capture_interval_def Let_def split: option.splits)

lemma session_ok_active:
  assumes "session_ok m" and "session_active m"
  shows "\<exists>s t0. current_session m = Some s \<and> start_time s = Some t0"
  using assms by (auto simp: session_ok_def split: option.splits)

lemma add_detection_after_end_session:
  assumes "end_session gen save_report now m = Inr (m', r, evs)" and "session_ok m"
  shows "add_detection fromts e c ts t m' = Inr (m', [])"
  using assms
  by (auto simp: add_detection_def end_session_def session_ok_def Let_def
      split: if_splits option.splits)

text \<open>
  Claim C6. When the report generator raises during \<^verbatim>\<open>end_session\<close>, the call still
  returns the statistics: the manager is idle, without a current session and with the
  timer disabled, the statistics carry the end time and \<open>duration = now - start_time\<close>, and
  the exception only shows as a printed line after the generator call. The new manager
  and the returned statistics are the same as with any other generator.
\<close>

theorem failed_report_does_not_fail_stop:
  assumes "session_active m" and "current_session m = Some s" and "start_time s = Some t0"
    and "\<And>data path. gen data path = Inl err"
  shows "\<exists>m' stats evs.
     end_session gen True now m = Inr (m', Some stats, evs)
   \<and> \<not> session_active m' \<and> current_session m' = None \<and> \<not> capture_timer_enabled m'
   \<and> st_end_time stats = Some now
   \<and> st_duration stats = now - t0
   \<and> st_total_detections stats = total_detections s
   \<and> st_detections_history stats = detections_history s
   \<and> (0 < total_detections s \<longrightarrow>
        (\<exists>data path. Save_session_report data path \<in> set evs) \<and> last evs = Print_report_error err)
   \<and> map_sum id (\<lambda>(m'', r, evs'). (m'', r)) (end_session gen' True now m) = Inr (m', Some stats)"
proof -
  let ?s' = "s\<lparr>end_time := Some now, duration := now - t0\<rparr>"
  let ?m1 = "m\<lparr>current_session := Some ?s', session_active := False,
               capture_timer_enabled := False\<rparr>"
  have f: "st_start_time (to_dict ?s') = Some t0" "st_end_time (to_dict ?s') = Some now"
    by (simp_all add: to_dict_def assms(3))
  from save_session_report_of_call [OF f, of gen ?m1]
  obtain data path rest e where call:
    "save_session_report_of gen ?m1 (to_dict ?s') = (Save_session_report data path # rest, e)"
    by blast
  have e: "e = Some err" "rest = []"
    using call assms(4) by (auto simp: save_session_report_of_def Let_def f)
  show ?thesis
    unfolding end_session_active [OF assms(1,2,3)]
    apply (intro exI conjI)
             apply (rule refl)
            apply simp
           apply simp
          apply simp
         apply (simp add: to_dict_def)
        apply (simp add: to_dict_def)
       apply (simp add: to_dict_def)
      apply (simp add: to_dict_def)
     apply (simp add: call e)
    apply simp
    done
qed

text \<open>A session with one detection, ended while the generator fails.\<close>

theorem failed_report_does_not_fail_stop_witness:
  "\<forall>fromts.
     map_sum id (\<lambda>(m', r, evs). (session_active m', current_session m', map_option st_end_time r,
                                  map_option st_duration r, map_option st_total_detections r, last evs))
       (end_session (\<lambda>data path. Inl OtherException) True 15
          (projr (add_detections fromts [(''feliz'', 0.9, None, 12)]
             (fst (projr (start_session (\<lambda>data path. Inl OtherException) 10
                \<lparr>year = 2025, month = 11, day = 4, hour = 9, minute = 30, second = 0\<rparr> 10 10
                (init_manager ''results'')))))))
     = Inr (False, None, Some (Some 15), Some 5, Some 1, Print_report_error OtherException)"
proof
  fix fromts :: fromtimestamp
  define gen :: report_generator where "gen = (\<lambda>data path. Inl OtherException)"
  define m0 where "m0 = fst (projr (start_session gen 10
              \<lparr>year = 2025, month = 11, day = 4, hour = 9, minute = 30, second = 0\<rparr> 10 10
              (init_manager ''results'')))"
  define s where "s = stats_add_detection (detection_of (''feliz'', 0.9, None, 12))
              (new_statistics\<lparr>start_time := Some 10\<rparr>)"
  define m where "m = projr (add_detections fromts [(''feliz'', 0.9, None, 12)] m0)"
  have idle: "\<not> session_active (init_manager ''results'')" by (simp add: init_manager_def)
  have a0: "session_active m0" unfolding m0_def start_session_idle [OF idle] by simp
  have b0: "current_session m0 = Some (new_statistics\<lparr>start_time := Some 10\<rparr>)"
    unfolding m0_def start_session_idle [OF idle] by simp
  have acc: "list_all (accepted fromts) [(''feliz'', 0.9, None, 12)]"
    by (simp add: accepted_def)
  have m: "m = m0\<lparr>current_session := Some s\<rparr>"
    unfolding m_def s_def add_detections_active [OF a0 b0 acc] by simp
  have h1: "session_active m" unfolding m using a0 by simp
  have h2: "current_session m = Some s" unfolding m by simp
  have h3: "start_time s = Some 10" by (simp add: s_def stats_add_detection_def)
  have h4: "\<And>data path. gen data path = Inl OtherException" by (simp add: gen_def)
  have tot: "total_detections s = 1"
    by (simp add: s_def stats_add_detection_def new_statistics_def)
  from failed_report_does_not_fail_stop [of m s 10 gen OtherException 15 gen, OF h1 h2 h3 h4]
  obtain m' stats evs where
    r: "end_session gen True 15 m = Inr (m', Some stats, evs)"
    and f: "\<not> session_active m'" "current_session m' = None" "st_end_time stats = Some 15"
      "st_duration stats = 15 - 10" "st_total_detections stats = total_detections s"
    and l: "0 < total_detections s \<longrightarrow>
        (\<exists>data path. Save_session_report data path \<in> set evs) \<and> last evs = Print_report_error OtherException"
    by (elim exE conjE) (rule that; assumption)
  from l tot have "last evs = Print_report_error OtherException" by simp
  then have "map_sum id (\<lambda>(m', r, evs). (session_active m', current_session m', map_option st_end_time r,
                                  map_option st_duration r, map_option st_total_detections r, last evs))
     (end_session gen True 15 m)
   = Inr (False, None, Some (Some 15), Some 5, Some 1, Print_report_error OtherException)"
    unfolding r using f tot by simp
  then show "map_sum id (\<lambda>(m', r, evs). (session_active m', current_session m', map_option st_end_time r,
                                  map_option st_duration r, map_option st_total_detections r, last evs))
       (end_session (\<lambda>data path. Inl OtherException) True 15
          (projr (add_detections fromts [(''feliz'', 0.9, None, 12)]
             (fst (projr (start_session (\<lambda>data path. Inl OtherException) 10
                \<lparr>year = 2025, month = 11, day = 4, hour = 9, minute = 30, second = 0\<rparr> 10 10
                (init_manager ''results'')))))))
     = Inr (False, None, Some (Some 15), Some 5, Some 1, Print_report_error OtherException)"
    unfolding m_def m0_def gen_def .
qed

lemma end_session_report_call:
  assumes "session_active m" and "current_session m = Some s" and "start_time s = Some t0"
    and "end_session gen True now m = Inr (m', r, evs)"
  shows "(\<exists>data path. Save_session_report data path \<in> set evs) = (0 < total_detections s)"
proof (cases "0 < total_detections s")
  case True
  let ?s' = "s\<lparr>end_time := Some now, duration := now - t0\<rparr>"
  let ?m1 = "m\<lparr>current_session := Some ?s', session_active := False,
               capture_timer_enabled := False\<rparr>"
  have f: "st_start_time (to_dict ?s') = Some t0" "st_end_time (to_dict ?s') = Some now"
    by (simp_all add: to_dict_def assms(3))
  from save_session_report_of_call [OF f, of gen ?m1]
  obtain data path rest e where call:
    "save_session_report_of gen ?m1 (to_dict ?s') = (Save_session_report data path # rest, e)"
    by blast
  have "Save_session_report data path \<in> set evs"
    using assms(4) True unfolding end_session_active [OF assms(1,2,3)]
    by (cases e) (auto simp: call)
  with True show ?thesis by blast
next
  case False
  then show ?thesis
    using assms(4) unfolding end_session_active [OF assms(1,2,3)] by auto
qed

text \<open>
  \<^verbatim>\<open>start_session\<close> on a manager with an active session first does what \<^verbatim>\<open>end_session\<close>
  with report saving does: the old session gets its end time, the report generator is
  called exactly when the session has at least one detection, and the events of
  \<^verbatim>\<open>end_session\<close> come first. It then creates the new session as it would from the idle
  manager that \<^verbatim>\<open>end_session\<close> leaves, raises nothing and returns the new identifier,
  which is also the manager's \<^verbatim>\<open>session_id\<close>.
\<close>

lemma start_session_ends_active_session:
  assumes "session_ok m" and "session_active m"
  shows "\<exists>m1 stats evs m2.
     end_session gen True t_end m = Inr (m1, Some stats, evs)
   \<and> \<not> session_active m1 \<and> current_session m1 = None
   \<and> st_end_time stats = Some t_end
   \<and> map_option total_detections (current_session m) = Some (st_total_detections stats)
   \<and> (\<exists>data path. Save_session_report data path \<in> set evs) = (0 < st_total_detections stats)
   \<and> start_session gen t_end dt t_start t_timer m =
        Inr (m2, strftime_session dt, evs @ [Print_session_started (strftime_session dt)])
   \<and> start_session gen t_end' dt t_start t_timer m1 =
        Inr (m2, strftime_session dt, [Print_session_started (strftime_session dt)])
   \<and> session_active m2
   \<and> session_id m2 = Some (strftime_session dt)
   \<and> current_session m2 = Some (new_statistics\<lparr>start_time := Some t_start\<rparr>)
   \<and> capture_timer_start m2 = Some t_timer"
proof -
  from session_ok_active [OF assms] obtain s t0 where
    s: "current_session m = Some s" "start_time s = Some t0"
    by blast
  note es = end_session_active [OF assms(2) s, of gen True t_end]
  let ?m1 = "m\<lparr>current_session := None, session_active := False,
            capture_timer_enabled := False, session_id := None\<rparr>"
  have idle: "\<not> session_active ?m1" by simp
  obtain stats evs where r: "end_session gen True t_end m = Inr (?m1, Some stats, evs)"
    and st: "stats = to_dict (s\<lparr>end_time := Some t_end, duration := t_end - t0\<rparr>)"
    using es by simp
  have call: "(\<exists>data path. Save_session_report data path \<in> set evs) = (0 < total_detections s)"
    by (rule end_session_report_call [OF assms(2) s r])
  have tot: "st_total_detections stats = total_detections s" by (simp add: st to_dict_def)
  have start1: "start_session gen t_end dt t_start t_timer m =
      (case start_session gen t_end' dt t_start t_timer ?m1 of
         Inl e \<Rightarrow> Inl e
       | Inr (m2, sid, evs') \<Rightarrow> Inr (m2, sid, evs @ evs'))"
    using assms(2) by (simp add: start_session_def r Let_def)
  let ?m2 = "?m1\<lparr>session_id := Some (strftime_session dt),
            current_session := Some (new_statistics\<lparr>start_time := Some t_start\<rparr>),
            session_active := True,
            capture_timer_start := Some t_timer,
            next_capture_time := Some (t_timer + capture_interval ?m1)\<rparr>"
  have s2: "start_session gen t_end' dt t_start t_timer ?m1 =
      Inr (?m2, strftime_session dt, [Print_session_started (strftime_session dt)])"
    by (rule start_session_idle [OF idle])
  have s1: "start_session gen t_end dt t_start t_timer m =
      Inr (?m2, strftime_session dt, evs @ [Print_session_started (strftime_session dt)])"
    unfolding start1 s2 by simp
  have p1: "\<not> session_active ?m1" "current_session ?m1 = None" by simp_all
  have p2: "st_end_time stats = Some t_end" by (simp add: st to_dict_def)
  have p3: "map_option total_detections (current_session m) = Some (st_total_detections stats)"
    by (simp add: s tot)
  have p4: "(\<exists>data path. Save_session_report data path \<in> set evs) = (0 < st_total_detections stats)"
    by (simp add: call tot)
  have p5: "session_active ?m2" "session_id ?m2 = Some (strftime_session dt)"
    "current_session ?m2 = Some (new_statistics\<lparr>start_time := Some t_start\<rparr>)"
    "capture_timer_start ?m2 = Some t_timer"
    by simp_all
  show ?thesis
    apply (rule exI [of _ ?m1])
    apply (rule exI [of _ stats])
    apply (rule exI [of _ evs])
    apply (rule exI [of _ ?m2])
    apply (intro conjI)
               apply (rule r)
              apply (rule p1(1))
             apply (rule p1(2))
            apply (rule p2)
           apply (rule p3)
          apply (rule p4)
         apply (rule s1)
        apply (rule s2)
       apply (rule p5(1))
      apply (rule p5(2))
     apply (rule p5(3))
    apply (rule p5(4))
    done
qed

text \<open>
  With the keywords of the session manager the repository's generator raises before its
  body runs, whatever the body would do, so no session of the manager ever gets the line
  that reports a saved file.
\<close>

lemma pdf_report_called_by_manager_raises:
  "pdf_report_called_by_manager body = (\<lambda>data path. Inl TypeError)"
  by (simp add: pdf_report_called_by_manager_def bind_keywords_def pdf_report_parameters_def
      fun_eq_iff)

lemma bind_keywords_of_application:
  "bind_keywords pdf_report_parameters
     [''pdf_path'', ''session_records'', ''model_name'', ''capture_interval'', ''total_duration'']
   = None"
  by (simp add: bind_keywords_def pdf_report_parameters_def)

lemma manager_report_never_saved:
  assumes "end_session (pdf_report_called_by_manager body) save_report now m = Inr (m', r, evs)"
  shows "Print_report_saved p \<notin> set evs"
  using assms unfolding pdf_report_called_by_manager_raises
  by (auto simp: end_session_def save_session_report_of_def Let_def
      split: if_splits option.splits)

text \<open>
  Claim C9 says that \<^verbatim>\<open>start_session\<close> on an active session ends that session as
  \<^verbatim>\<open>end_session\<close> with report saving would, generating a report when the session has a
  detection. The first part holds (\<open>start_session_ends_active_session\<close>). The report
  does not come about: a manager whose session of 10 s has one detection is started
  again; \<^verbatim>\<open>start_session\<close> returns the new identifier, but the generator call for the old
  session ends in \<^verbatim>\<open>TypeError\<close>, which is printed, and no file is written. The original
  application calls the same function with the names of its parameters.
\<close>

theorem start_session_report_call_raises:
  "map_sum id (\<lambda>(m2, sid, evs). (sid, session_active m2, session_id m2, evs))
     (start_session (pdf_report_called_by_manager (\<lambda>data path. Inr ())) 20
        \<lparr>year = 2025, month = 11, day = 4, hour = 9, minute = 31, second = 0\<rparr> 21 22
        (projr (add_detections fromts [(''feliz'', 0.9, None, 12)]
           (fst (projr (start_session (pdf_report_called_by_manager (\<lambda>data path. Inr ())) 10
              \<lparr>year = 2025, month = 11, day = 4, hour = 9, minute = 30, second = 0\<rparr> 10 10
              (init_manager ''results'')))))))
   = Inr (''sesion_20251104_093100'', True, Some ''sesion_20251104_093100'',
          [Print_session_ended (Some ''sesion_20251104_093000''), Print_duration 10,
           Print_detections 1, Print_dominant (Some (''feliz'', 1, 0.9)),
           Save_session_report
             \<lparr>sd_session_id = Some ''sesion_20251104_093000'',
              sd_start_time = 10, sd_end_time = 20, sd_duration = 10,
              sd_total_detections = 1,
              sd_emotion_counts = [(''feliz'', 1)],
              sd_emotion_distribution = [(''feliz'', 100)],
              sd_average_confidences = [(''feliz'', 0.9)],
              sd_detection_rate = 6,
              sd_dominant_emotion = Some (''feliz'', 1, 0.9)\<rparr>
             ''results/sesion_20251104_093000.pdf'',
           Print_report_error TypeError,
           Print_session_started ''sesion_20251104_093100''])"
proof -
  have sid1: "strftime_session \<lparr>year = 2025, month = 11, day = 4, hour = 9, minute = 30, second = 0\<rparr>
      = ''sesion_20251104_093000''"
    by (simp add: strftime_session_def zero_pad_def str_nat.simps)
  have sid2: "strftime_session \<lparr>year = 2025, month = 11, day = 4, hour = 9, minute = 31, second = 0\<rparr>
      = ''sesion_20251104_093100''"
    by (simp add: strftime_session_def zero_pad_def str_nat.simps)
  have idle: "\<not> session_active (init_manager ''results'')" by (simp add: init_manager_def)
  show ?thesis
    unfolding pdf_report_called_by_manager_raises start_session_idle [OF idle] sid1
    by (simp add: start_session_def sid2 add_detection_def new_detection_def
        stats_add_detection_def end_session_def Let_def new_statistics_def to_dict_def
        get_dominant_emotion_def get_emotion_distribution_def get_average_confidences_def
        get_detection_rate_def save_session_report_of_def init_manager_def deque_append_def
        MAX_EMOTION_HISTORY_def)
qed

section \<open>Detection dispatch\<close>

text \<open>
  \<^verbatim>\<open>is_capture_time\<close> holds during the whole last 100 ms of every cycle, and all the time
  for the minimum interval of 0.1 s.
\<close>

lemma is_capture_time_window:
  assumes "capture_timer_enabled m" and "capture_timer_start m = Some e" and "0 < capture_interval m"
  shows "is_capture_time now m =
     Inr (capture_interval m
            - ((now - e) - of_int \<lfloor>(now - e) / capture_interval m\<rfloor> * capture_interval m) \<le> 0.1)"
  using assms
  by (simp add: is_capture_time_def get_timer_status_def Let_def py_mod_pos py_floordiv_pos)

lemma is_capture_time_min_interval:
  assumes "capture_timer_enabled m" and "capture_timer_start m = Some e"
    and "capture_interval m = 0.1"
  shows "is_capture_time now m = Inr True"
proof -
  have pos: "0 < capture_interval m" using assms(3) by simp
  have "0 \<le> (now - e) - of_int \<lfloor>(now - e) / capture_interval m\<rfloor> * capture_interval m"
    by (rule floor_remainder_bounds(1) [OF pos])
  then have "capture_interval m
          - ((now - e) - of_int \<lfloor>(now - e) / capture_interval m\<rfloor> * capture_interval m)
        \<le> capture_interval m"
    by linarith
  then have "capture_interval m
          - ((now - e) - of_int \<lfloor>(now - e) / capture_interval m\<rfloor> * capture_interval m) \<le> 0.1"
    unfolding assms(3) .
  then show ?thesis
    unfolding is_capture_time_window [OF assms(1,2) pos] by simp
qed

text \<open>
  The original application guards its dispatch with \<^verbatim>\<open>last_detect_time\<close>: a thread is
  started only when a full interval has passed since the previous start.
\<close>

lemma update_preview_dispatch_gap:
  assumes "update_preview now read app = (app', evs)" and "Thread_started fr \<in> set evs"
  shows "max 0.1 (capture_interval_sec app) \<le> now - last_detect_time app
       \<and> last_detect_time app' = now \<and> evs = [Thread_started fr]"
  using assms
  by (auto simp: update_preview_def Let_def split: if_splits option.splits)

lemma update_preview_no_dispatch_within_interval:
  assumes "now - last_detect_time app < max 0.1 (capture_interval_sec app)"
  shows "snd (update_preview now read app) \<in> {[], [Status_camera_read_error]}
       \<and> workers (fst (update_preview now read app)) = workers app
       \<and> last_detect_time (fst (update_preview now read app)) = last_detect_time app"
  using assms
  by (auto simp: update_preview_def Let_def split: if_splits option.splits)


section \<open>Detections that finish after the stop\<close>

text \<open>
  The thread body of the original application appends whenever the classifier returns a
  vector, whatever the state of the session; the session manager's \<^verbatim>\<open>add_detection\<close>
  returns at once without an active session (\<open>add_detection_after_end_session\<close>).
\<close>

lemma run_detection_appends_unguarded:
  assumes "image_prepared fr" and "model_output fr = Inr prob" and "prob \<noteq> []"
  shows "length (session_records (fst (run_detection fr ts app))) = Suc (length (session_records app))"
proof -
  from np_argmax_spec [OF assms(3)] obtain idx where "np_argmax prob = Inr idx" by blast
  then show ?thesis
    using assms(1,2) by (simp add: run_detection_def predict_emotion_def Let_def)
qed

text \<open>
  Claim C3 asks that a detection completing after the stop leaves the finished session's
  records unchanged. In the original application a detection thread is started at
  100.05 s, the session is stopped at 100.1 s with no record (the empty-session dialog is
  shown and no report is written), and the thread then finishes: its record is appended
  to \<^verbatim>\<open>session_records\<close> of the stopped session.
\<close>

theorem completion_after_stop_appends:
  "(let fr = \<lparr>detected_faces = 1, face_region_found = True, image_prepared = True,
               model_output = Inr [0.05, 0.05, 0.7, 0.05, 0.05, 0.05, 0.05], jpeg_bytes = [255, 216]\<rparr>;
        app0 = app_model_loaded ''models/fer.h5'' ''fer.h5'' 7 init_app;
        app1 = fst (start_camera (Inr 7) True 100 100 100 app0);
        app2 = fst (update_preview 100.05 (Some fr) app1);
        stopped = stop_and_save (\<lambda>path records model_name interval total. Inr ())
                    ''20251104_093000'' 100.1 app2;
        app4 = fst (worker_completes 0 ''2025-11-04 09:30:01'' (fst stopped))
    in (workers app2, running (fst stopped), session_records (fst stopped), snd stopped,
        running app4, session_records app4))
   = ([\<lparr>detected_faces = 1, face_region_found = True, image_prepared = True,
         model_output = Inr [0.05, 0.05, 0.7, 0.05, 0.05, 0.05, 0.05], jpeg_bytes = [255, 216]\<rparr>],
      False, [], [Info_empty_session], False,
      [\<lparr>rec_timestamp = ''2025-11-04 09:30:01'', rec_emotion = ''miedo'', rec_confidence = 0.7,
        rec_img_data = [255, 216], rec_model = ''fer.h5''\<rparr>])"
  by (simp add: Let_def app_model_loaded_def init_app_def start_camera_def update_preview_def
      stop_and_save_def worker_completes_def run_detection_def predict_emotion_def np_argmax_def
      resolve_label_def get_label_set_for_classes_def fer5_def)

section \<open>The countdown\<close>

text \<open>
  The remaining time of an enabled timer is positive and at most the interval, so the
  countdown of the original application never reaches its branch for a remaining time
  of zero or less.
\<close>

lemma timer_remaining_bounds:
  assumes "capture_timer_enabled m" and "capture_timer_start m = Some e" and "0 < capture_interval m"
  shows "\<exists>st. get_timer_status now m = Inr st
             \<and> 0 < ts_time_remaining st \<and> ts_time_remaining st \<le> capture_interval m"
proof -
  note b = floor_remainder_bounds [OF assms(3), of "now - e"]
  have "get_timer_status now m =
      Inr \<lparr>ts_enabled = True,
           ts_time_remaining = capture_interval m
             - ((now - e) - of_int \<lfloor>(now - e) / capture_interval m\<rfloor> * capture_interval m),
           ts_next_capture = Some (now + (capture_interval m
             - ((now - e) - of_int \<lfloor>(now - e) / capture_interval m\<rfloor> * capture_interval m))),
           ts_interval = capture_interval m,
           ts_cycle_count = Some \<lfloor>(now - e) / capture_interval m\<rfloor>\<rparr>"
    using assms by (simp add: get_timer_status_def Let_def py_mod_pos py_floordiv_pos)
  moreover have "0 < capture_interval m
             - ((now - e) - of_int \<lfloor>(now - e) / capture_interval m\<rfloor> * capture_interval m)"
    using b(2) by linarith
  moreover have "capture_interval m
             - ((now - e) - of_int \<lfloor>(now - e) / capture_interval m\<rfloor> * capture_interval m)
           \<le> capture_interval m"
    using b(1) by linarith
  ultimately show ?thesis by simp
qed

lemma update_capture_timer_countdown:
  assumes "timer_enabled app" and "running app"
  shows "update_capture_timer now app =
     Inr (Timer_countdown
            (max 0.1 (capture_interval_sec app)
               - ((now - timer_start_time app)
                    - of_int \<lfloor>(now - timer_start_time app) / max 0.1 (capture_interval_sec app)\<rfloor>
                        * max 0.1 (capture_interval_sec app))))"
proof -
  have pos: "0 < max 0.1 (capture_interval_sec app)" by (simp add: max_def)
  note b = floor_remainder_bounds(2) [OF pos, of "now - timer_start_time app"]
  have "\<not> max 0.1 (capture_interval_sec app)
               - ((now - timer_start_time app)
                    - of_int \<lfloor>(now - timer_start_time app) / max 0.1 (capture_interval_sec app)\<rfloor>
                        * max 0.1 (capture_interval_sec app)) \<le> 0"
    using b by linarith
  then show ?thesis
    using assms by (simp add: update_capture_timer_def Let_def py_mod_pos [OF pos])
qed

text \<open>\<^verbatim>\<open>get_current_stats\<close> keeps the session invariant as well.\<close>

lemma session_ok_get_current_stats:
  assumes "session_ok m" and "get_current_stats now m = Inr (m', r)"
  shows "session_ok m'"
  using assms
  by (auto simp: session_ok_def get_current_stats_def Let_def split: if_splits option.splits)

section \<open>Sessions of the original application\<close>

text \<open>
  The original application keeps its records in a plain list. After any number of
  detection threads have finished during a running session, \<^verbatim>\<open>stop_and_save\<close> hands all
  their records to the report generator, in the order in which the threads finished,
  together with the duration since the start of the session.
\<close>

lemma run_detection_record:
  assumes "image_prepared fr" and "model_output fr = Inr prob" and "prob \<noteq> []"
  shows "\<exists>r. run_detection fr ts app =
           (app\<lparr>last_emotion := Some (rec_emotion r, rec_confidence r),
                last_emotion_time := Some ts,
                session_records := session_records app @ [r]\<rparr>, [])
         \<and> rec_timestamp r = ts \<and> rec_img_data r = jpeg_bytes fr
         \<and> rec_model r = selected_model_name app \<and> rec_confidence r = Max (set prob)"
proof -
  from np_argmax_spec [OF assms(3)] obtain idx where
    idx: "np_argmax prob = Inr idx" "prob ! idx = Max (set prob)"
    by blast
  show ?thesis
    apply (rule exI [of _ "\<lparr>rec_timestamp = ts,
        rec_emotion = resolve_label (model_labels app) idx prob,
        rec_confidence = Max (set prob), rec_img_data = jpeg_bytes fr,
        rec_model = selected_model_name app\<rparr>"])
    using assms(1,2) idx by (simp add: run_detection_def predict_emotion_def Let_def)
qed

lemma run_detections_records:
  assumes "list_all (\<lambda>(fr, ts). image_prepared fr
              \<and> (case model_output fr of Inl e \<Rightarrow> False | Inr prob \<Rightarrow> prob \<noteq> [])) threads"
  shows "\<exists>recs. session_records (run_detections threads app) = session_records app @ recs
           \<and> map rec_timestamp recs = map snd threads
           \<and> map rec_img_data recs = map (jpeg_bytes \<circ> fst) threads
           \<and> running (run_detections threads app) = running app
           \<and> session_start_time (run_detections threads app) = session_start_time app
           \<and> selected_model_name (run_detections threads app) = selected_model_name app
           \<and> capture_interval_sec (run_detections threads app) = capture_interval_sec app"
  using assms
proof (induction threads arbitrary: app)
  case Nil
  then show ?case by (simp add: run_detections_def)
next
  case (Cons th threads)
  obtain fr ts where th: "th = (fr, ts)" by (cases th) auto
  from Cons.prems th obtain prob where
    good: "image_prepared fr" "model_output fr = Inr prob" "prob \<noteq> []"
    by (auto split: sum.splits)
  from run_detection_record [OF good, of ts app] obtain r where
    r: "run_detection fr ts app =
           (app\<lparr>last_emotion := Some (rec_emotion r, rec_confidence r),
                last_emotion_time := Some ts,
                session_records := session_records app @ [r]\<rparr>, [])"
      "rec_timestamp r = ts" "rec_img_data r = jpeg_bytes fr"
    by blast
  let ?app1 = "app\<lparr>last_emotion := Some (rec_emotion r, rec_confidence r),
                last_emotion_time := Some ts,
                session_records := session_records app @ [r]\<rparr>"
  have step: "run_detections (th # threads) app = run_detections threads ?app1"
    by (simp add: run_detections_def th r(1))
  from Cons.prems have rest: "list_all (\<lambda>(fr, ts). image_prepared fr
              \<and> (case model_output fr of Inl e \<Rightarrow> False | Inr prob \<Rightarrow> prob \<noteq> [])) threads"
    by simp
  from Cons.IH [OF rest, of ?app1] obtain recs where
    ih: "session_records (run_detections threads ?app1) = session_records ?app1 @ recs"
      "map rec_timestamp recs = map snd threads"
      "map rec_img_data recs = map (jpeg_bytes \<circ> fst) threads"
      "running (run_detections threads ?app1) = running ?app1"
      "session_start_time (run_detections threads ?app1) = session_start_time ?app1"
      "selected_model_name (run_detections threads ?app1) = selected_model_name ?app1"
      "capture_interval_sec (run_detections threads ?app1) = capture_interval_sec ?app1"
    by (elim exE conjE) (rule that; assumption)
  show ?case
    unfolding step
    apply (rule exI [of _ "r # recs"])
    using ih r(2,3) th by simp
qed

lemma app_round_trip_records:
  assumes "running app" and "session_records app = []" and "threads \<noteq> []"
    and "list_all (\<lambda>(fr, ts). image_prepared fr
              \<and> (case model_output fr of Inl e \<Rightarrow> False | Inr prob \<Rightarrow> prob \<noteq> [])) threads"
    and "session_start_time app = Some t0" and "t0 \<noteq> 0"
  shows "\<exists>recs path. hd (snd (stop_and_save gen stamp now (run_detections threads app))) =
            Save_report path recs (selected_model_name app) (capture_interval_sec app) (now - t0)
          \<and> length recs = length threads
          \<and> map rec_timestamp recs = map snd threads
          \<and> map rec_img_data recs = map (jpeg_bytes \<circ> fst) threads"
proof -
  from run_detections_records [OF assms(4), of app] obtain recs where
    f: "session_records (run_detections threads app) = session_records app @ recs"
      "map rec_timestamp recs = map snd threads"
      "map rec_img_data recs = map (jpeg_bytes \<circ> fst) threads"
      "running (run_detections threads app) = running app"
      "session_start_time (run_detections threads app) = session_start_time app"
      "selected_model_name (run_detections threads app) = selected_model_name app"
      "capture_interval_sec (run_detections threads app) = capture_interval_sec app"
    by (elim exE conjE) (rule that; assumption)
  have len: "length recs = length threads"
    using f(2) by (metis length_map)
  then have ne: "recs \<noteq> []" using assms(3) by auto
  have "hd (snd (stop_and_save gen stamp now (run_detections threads app))) =
      Save_report (''results/sesion_'' @ stamp @ ''.pdf'') recs (selected_model_name app)
        (capture_interval_sec app) (now - t0)"
    using f assms(1,2,5,6) ne
    by (simp add: stop_and_save_def app_save_session_report_def Let_def split: sum.splits)
  with len f(2,3) show ?thesis by blast
qed

end
